theory Spec2Isabelle
  imports Main "HOL-Library.Sublist"
begin

section \<open>Python values\<close>

text \<open>
  The worker of \<^verbatim>\<open>llm_server_py.py\<close> reads one line per command, parses it with
  \<^verbatim>\<open>json.loads\<close> and works on the Python object that comes back. The objects
  \<^verbatim>\<open>json.loads\<close> can return are \<^verbatim>\<open>None\<close>, booleans, unbounded integers, floats,
  strings, lists and dictionaries with string keys.

  A finite float is the exact value \<open>m * 2 ^ e\<close> of an IEEE double; the parser also
  accepts the literals \<^verbatim>\<open>Infinity\<close>, \<^verbatim>\<open>-Infinity\<close> and \<^verbatim>\<open>NaN\<close>. A string is a list of
  characters (code points below 256). A dictionary is its list of items in insertion
  order; \<^verbatim>\<open>json.loads\<close> returns every key once.
\<close>

datatype pyfloat = Finite int int | PosInf | NegInf | NaN

datatype pyval =
    PNone
  | PBool bool
  | PInt int
  | PFloat pyfloat
  | PStr string
  | PList "pyval list"
  | PDict "(string \<times> pyval) list"

text \<open>
  An exception (an instance of \<^verbatim>\<open>Exception\<close>) is its class and its message,
  \<^verbatim>\<open>str(e)\<close>. The class decides which \<^verbatim>\<open>except\<close> clause of \<^verbatim>\<open>main\<close> catches it: the
  first clause catches \<^verbatim>\<open>json.JSONDecodeError\<close> only. Every class that is not listed
  by name is \<open>OtherException\<close>.
\<close>

datatype exn_class =
    JSONDecodeError
  | ValueError
  | RecursionError
  | TypeError
  | AttributeError
  | OSError
  | RuntimeError
  | OtherException

datatype exn = Exn exn_class string

text \<open>\<^verbatim>\<open>type(v).__name__\<close>, as it appears in the messages of the interpreter.\<close>

fun py_type_name :: "pyval \<Rightarrow> string" where
  "py_type_name PNone = ''NoneType''"
| "py_type_name (PBool _) = ''bool''"
| "py_type_name (PInt _) = ''int''"
| "py_type_name (PFloat _) = ''float''"
| "py_type_name (PStr _) = ''str''"
| "py_type_name (PList _) = ''list''"
| "py_type_name (PDict _) = ''dict''"

text \<open>The interpreter's messages put names between apostrophes.\<close>

definition quoted :: "string \<Rightarrow> string" where
  "quoted s = [CHR 0x27] @ s @ [CHR 0x27]"

text \<open>The message of the \<^verbatim>\<open>AttributeError\<close> raised by \<^verbatim>\<open>v.attr\<close> on a value without it.\<close>

definition no_attribute :: "pyval \<Rightarrow> string \<Rightarrow> string" where
  "no_attribute v attr =
     quoted (py_type_name v) @ '' object has no attribute '' @ quoted attr"

text \<open>Truth value testing, as in \<^verbatim>\<open>if target_lang:\<close> and \<^verbatim>\<open>if history:\<close>.\<close>

fun float_truthy :: "pyfloat \<Rightarrow> bool" where
  "float_truthy (Finite m e) = (m \<noteq> 0)"
| "float_truthy PosInf = True"
| "float_truthy NegInf = True"
| "float_truthy NaN = True"

fun py_truthy :: "pyval \<Rightarrow> bool" where
  "py_truthy PNone = False"
| "py_truthy (PBool b) = b"
| "py_truthy (PInt n) = (n \<noteq> 0)"
| "py_truthy (PFloat f) = float_truthy f"
| "py_truthy (PStr s) = (s \<noteq> [])"
| "py_truthy (PList xs) = (xs \<noteq> [])"
| "py_truthy (PDict kvs) = (kvs \<noteq> [])"

text \<open>
  The comparison \<^verbatim>\<open>temperature > 0\<close>. Numbers and booleans compare with an integer;
  every other operand raises \<^verbatim>\<open>TypeError\<close>. \<^verbatim>\<open>NaN > 0\<close> is false.
\<close>

fun float_gt_zero :: "pyfloat \<Rightarrow> bool" where
  "float_gt_zero (Finite m e) = (0 < m)"
| "float_gt_zero PosInf = True"
| "float_gt_zero NegInf = False"
| "float_gt_zero NaN = False"

definition not_comparable :: "pyval \<Rightarrow> string" where
  "not_comparable v =
     quoted ''>'' @ '' not supported between instances of '' @ quoted (py_type_name v) @
     '' and '' @ quoted ''int''"

fun py_gt_zero :: "pyval \<Rightarrow> exn + bool" where
  "py_gt_zero (PBool b) = Inr b"
| "py_gt_zero (PInt n) = Inr (0 < n)"
| "py_gt_zero (PFloat f) = Inr (float_gt_zero f)"
| "py_gt_zero v = Inl (Exn TypeError (not_comparable v))"

text \<open>
  Iteration, as \<^verbatim>\<open>enumerate(history)\<close> performs it: a list yields its elements, a
  string its characters as one-character strings, a dictionary its keys; anything else
  raises \<^verbatim>\<open>TypeError\<close>.
\<close>

definition not_iterable :: "pyval \<Rightarrow> string" where
  "not_iterable v = quoted (py_type_name v) @ '' object is not iterable''"

fun py_iter :: "pyval \<Rightarrow> exn + pyval list" where
  "py_iter (PList xs) = Inr xs"
| "py_iter (PStr s) = Inr (map (\<lambda>c. PStr [c]) s)"
| "py_iter (PDict kvs) = Inr (map (\<lambda>kv. PStr (fst kv)) kvs)"
| "py_iter v = Inl (Exn TypeError (not_iterable v))"

text \<open>\<^verbatim>\<open>d.get(key, default)\<close> on a dictionary.\<close>

definition dict_get :: "(string \<times> pyval) list \<Rightarrow> string \<Rightarrow> pyval \<Rightarrow> pyval" where
  "dict_get kvs key dflt = (case map_of kvs key of None \<Rightarrow> dflt | Some v \<Rightarrow> v)"

text \<open>
  The parts of the interpreter and of the \<^verbatim>\<open>json\<close> module that the worker calls but
  does not define: \<^verbatim>\<open>json.loads\<close>, which returns the parsed object or raises an
  exception (\<open>Inl\<close>), and \<^verbatim>\<open>str\<close> on numbers, lists and dictionaries.
\<close>

record runtime =
  json_loads :: "string \<Rightarrow> exn + pyval"
  py_repr :: "pyval \<Rightarrow> string"

text \<open>The text an f-string inserts for \<^verbatim>\<open>{v}\<close>.\<close>

fun py_format :: "runtime \<Rightarrow> pyval \<Rightarrow> string" where
  "py_format rt (PStr s) = s"
| "py_format rt PNone = ''None''"
| "py_format rt (PBool b) = (if b then ''True'' else ''False'')"
| "py_format rt v = py_repr rt v"

section \<open>String operations\<close>

text \<open>
  \<^verbatim>\<open>str.strip()\<close> removes the characters for which \<^verbatim>\<open>str.isspace\<close> holds from both
  ends. Below code point 256 these are the following.
\<close>

definition py_isspace :: "char \<Rightarrow> bool" where
  "py_isspace c \<longleftrightarrow>
     c \<in> set [CHR 0x09, CHR 0x0A, CHR 0x0B, CHR 0x0C, CHR 0x0D, CHR 0x1C, CHR 0x1D,
              CHR 0x1E, CHR 0x1F, CHR 0x20, CHR 0x85, CHR 0xA0]"

definition py_strip :: "string \<Rightarrow> string" where
  "py_strip s = rev (dropWhile py_isspace (rev (dropWhile py_isspace s)))"

text \<open>
  \<^verbatim>\<open>s.split(sep)\<close> scans \<open>s\<close> from the left: where \<open>sep\<close> starts it closes the current
  piece and continues behind the separator, otherwise it moves one character on. The
  pieces found so far never overlap. \<open>cur\<close> holds the current piece in reverse. Both
  calls of the worker pass a non-empty literal separator (an empty one raises
  \<^verbatim>\<open>ValueError\<close> in Python).
\<close>

function split_scan :: "string \<Rightarrow> string \<Rightarrow> string \<Rightarrow> string list" where
  "split_scan sep cur [] = [rev cur]"
| "split_scan sep cur (c # cs) =
     (if sep \<noteq> [] \<and> prefix sep (c # cs)
      then rev cur # split_scan sep [] (drop (length sep) (c # cs))
      else split_scan sep (c # cur) cs)"
  by pat_completeness auto
termination
  by (relation "measure (\<lambda>(sep, cur, s). length s)") auto

definition py_split :: "string \<Rightarrow> string \<Rightarrow> string list" where
  "py_split sep s = split_scan sep [] s"

section \<open>Response extraction\<close>

text \<open>
  Lines 116 to 121 of \<^verbatim>\<open>LLMServer.generate\<close>: the decoded text holds the whole
  transcript; the reply is what follows the last \<^verbatim>\<open>assistant\<close> marker. The operator
  \<^verbatim>\<open>in\<close> on strings is \<^const>\<open>sublist\<close>, and \<^verbatim>\<open>[-1]\<close> is \<^const>\<open>last\<close> (a split is
  never empty, see \<open>split_scan_not_Nil\<close>).
\<close>

definition extract_response :: "string \<Rightarrow> string" where
  "extract_response response =
     (if sublist ''assistant\<newline>'' response
      then py_strip (last (py_split ''assistant\<newline>'' response))
      else if sublist ''assistant'' response
      then py_strip (last (py_split ''assistant'' response))
      else response)"

text \<open>
  The policy as the specification words it: find the last occurrence of the marker and
  return everything after it. The recursion looks at the later positions first, so the
  latest position at which \<open>sep\<close> starts decides; \<open>None\<close> means that \<open>sep\<close> does
  not occur (\<open>after_last_occurrence_Some_iff\<close> and \<open>after_last_occurrence_None_iff\<close>
  say this without recursion).
\<close>

fun after_last_occurrence :: "string \<Rightarrow> string \<Rightarrow> string option" where
  "after_last_occurrence sep [] = None"
| "after_last_occurrence sep (c # cs) =
     (case after_last_occurrence sep cs of
        Some r \<Rightarrow> Some r
      | None \<Rightarrow> if prefix sep (c # cs) then Some (drop (length sep) (c # cs)) else None)"

definition spec_extract :: "string \<Rightarrow> string" where
  "spec_extract t =
     (case after_last_occurrence ''assistant\<newline>'' t of
        Some r \<Rightarrow> py_strip r
      | None \<Rightarrow>
          (case after_last_occurrence ''assistant'' t of
             Some r \<Rightarrow> py_strip r
           | None \<Rightarrow> t))"

text \<open>
  A word is unbordered when none of its proper non-empty suffixes is also a prefix of
  it: two occurrences of such a word never overlap.
\<close>

definition unbordered :: "string \<Rightarrow> bool" where
  "unbordered sep \<longleftrightarrow> list_all (\<lambda>k. \<not> prefix (drop k sep) sep) [1..<length sep]"

section \<open>The conversation\<close>

text \<open>
  A message is the dictionary \<^verbatim>\<open>{"role": ..., "content": ...}\<close>. The content of a
  history message is the history element as it came from the request, whatever its type.
\<close>

record message =
  role :: string
  content :: pyval

text \<open>Lines 77 to 82: the system message.\<close>

definition system_message :: "runtime \<Rightarrow> pyval \<Rightarrow> message" where
  "system_message rt target_lang =
     (if py_truthy target_lang
      then \<lparr>role = ''system'',
            content = PStr (''You are a helpful assistant that translates text to '' @
              py_format rt target_lang @ ''. Continue the conversation without explanation.'')\<rparr>
      else \<lparr>role = ''system'',
            content = PStr ''You are Qwen, created by Alibaba Cloud. You are a helpful assistant.''\<rparr>)"

text \<open>Lines 86 to 88: one message per history element, the role from the parity of its index.\<close>

definition history_messages :: "pyval list \<Rightarrow> message list" where
  "history_messages items =
     map (\<lambda>(i, msg). \<lparr>role = (if i mod 2 = 0 then ''user'' else ''assistant''), content = msg\<rparr>)
       (enumerate 0 items)"

text \<open>
  Lines 75 to 91: the message list handed to the chat template. Iterating a history
  that is neither falsy nor iterable raises \<^verbatim>\<open>TypeError\<close>.
\<close>

definition build_messages :: "runtime \<Rightarrow> pyval \<Rightarrow> pyval \<Rightarrow> pyval \<Rightarrow> exn + message list" where
  "build_messages rt prompt target_lang history =
     (if py_truthy history
      then (case py_iter history of
              Inl e \<Rightarrow> Inl e
            | Inr items \<Rightarrow>
                Inr ([system_message rt target_lang] @ history_messages items @
                     [\<lparr>role = ''user'', content = prompt\<rparr>]))
      else Inr ([system_message rt target_lang] @ [\<lparr>role = ''user'', content = prompt\<rparr>]))"

section \<open>The model backend\<close>

text \<open>
  The tokenizer and the model are objects of the \<^verbatim>\<open>transformers\<close> library. The worker
  holds them by reference (a handle) and calls into them; a call returns or raises an
  exception of any class (\<open>Inl\<close>). What a call answers may differ from one command
  to the next, so every command is processed against the backend behaviour of its own
  moment.

  \<^item> \<open>tokenizer_from_pretrained model_id local_files_only\<close>
  \<^item> \<open>model_from_pretrained model_id device local_files_only\<close> (the device decides
    \<^verbatim>\<open>torch_dtype\<close> and \<^verbatim>\<open>device_map\<close>)
  \<^item> \<open>model_to model device\<close> is \<^verbatim>\<open>self.model.to(self.device)\<close>
  \<^item> \<open>apply_chat_template tokenizer messages\<close>, with \<^verbatim>\<open>tokenize=False\<close> and
    \<^verbatim>\<open>add_generation_prompt=True\<close>
  \<^item> \<open>tokenizer_call tokenizer text\<close> is \<^verbatim>\<open>self.tokenizer(text, return_tensors="pt")\<close>
  \<^item> \<open>inputs_to encoding model\<close> is \<^verbatim>\<open>.to(self.model.device)\<close>
  \<^item> \<open>model_generate model tokenizer inputs max_new_tokens temperature do_sample\<close>
    (the tokenizer gives \<^verbatim>\<open>pad_token_id\<close>)
  \<^item> \<open>decode tokenizer outputs\<close> is
    \<^verbatim>\<open>self.tokenizer.decode(outputs[0], skip_special_tokens=True)\<close>
\<close>

type_synonym handle = nat

type_synonym tensor = "nat list"

record backend =
  cuda_is_available :: bool
  tokenizer_from_pretrained :: "string \<Rightarrow> bool \<Rightarrow> exn + handle"
  model_from_pretrained :: "string \<Rightarrow> string \<Rightarrow> bool \<Rightarrow> exn + handle"
  model_to :: "handle \<Rightarrow> string \<Rightarrow> exn + handle"
  apply_chat_template :: "handle \<Rightarrow> message list \<Rightarrow> exn + string"
  tokenizer_call :: "handle \<Rightarrow> string \<Rightarrow> exn + tensor"
  inputs_to :: "tensor \<Rightarrow> handle \<Rightarrow> exn + tensor"
  model_generate :: "handle \<Rightarrow> handle \<Rightarrow> tensor \<Rightarrow> pyval \<Rightarrow> pyval \<Rightarrow> bool \<Rightarrow> exn + tensor"
  decode :: "handle \<Rightarrow> tensor \<Rightarrow> exn + string"

text \<open>The calls into the backend that a command makes, in order, with their arguments.\<close>

datatype backend_call =
    CudaIsAvailable
  | TokenizerFromPretrained string bool
  | ModelFromPretrained string string bool
  | ModelTo handle string
  | ApplyChatTemplate handle "message list"
  | TokenizerCall handle string
  | InputsTo tensor handle
  | ModelGenerate handle handle tensor pyval pyval bool
  | Decode handle tensor

section \<open>The server object\<close>

record server =
  model_id :: string
  use_cache :: bool
  model :: "handle option"
  tokenizer :: "handle option"
  device :: "string option"

text \<open>\<^verbatim>\<open>LLMServer.__init__\<close> (lines 26 to 32).\<close>

definition LLMServer :: "string \<Rightarrow> bool \<Rightarrow> server" where
  "LLMServer mid cache =
     \<lparr>model_id = mid, use_cache = cache, model = None, tokenizer = None, device = None\<rparr>"

text \<open>
  \<^verbatim>\<open>LLMServer.load_model\<close> (lines 34 to 69). Every assignment to \<^verbatim>\<open>self\<close> made before an
  exception stays; the handler only logs and returns \<^verbatim>\<open>False\<close>.
\<close>

definition load_model :: "backend \<Rightarrow> server \<Rightarrow> bool \<times> server \<times> backend_call list" where
  "load_model b s =
     (let dev = (if cuda_is_available b then ''cuda'' else ''cpu'');
          s1 = s\<lparr>device := Some dev\<rparr>;
          c1 = [CudaIsAvailable, TokenizerFromPretrained (model_id s) (use_cache s)]
      in case tokenizer_from_pretrained b (model_id s) (use_cache s) of
           Inl e \<Rightarrow> (False, s1, c1)
         | Inr tok \<Rightarrow>
             (let s2 = s1\<lparr>tokenizer := Some tok\<rparr>;
                  c2 = c1 @ [ModelFromPretrained (model_id s) dev (use_cache s)]
              in case model_from_pretrained b (model_id s) dev (use_cache s) of
                   Inl e \<Rightarrow> (False, s2, c2)
                 | Inr mdl \<Rightarrow>
                     (let s3 = s2\<lparr>model := Some mdl\<rparr>
                      in if dev = ''cpu''
                         then (case model_to b mdl dev of
                                 Inl e \<Rightarrow> (False, s3, c2 @ [ModelTo mdl dev])
                               | Inr mdl' \<Rightarrow>
                                   (True, s3\<lparr>model := Some mdl'\<rparr>, c2 @ [ModelTo mdl dev]))
                         else (True, s3, c2))))"

text \<open>
  \<^verbatim>\<open>LLMServer.generate\<close> (lines 71 to 127). The handler of the method logs the exception
  and raises it again, so the method returns the extracted text or ends with the
  exception. The second component lists the backend calls made on the way.
\<close>

definition generate ::
  "runtime \<Rightarrow> backend \<Rightarrow> server \<Rightarrow> pyval \<Rightarrow> pyval \<Rightarrow> pyval \<Rightarrow> pyval \<Rightarrow> pyval \<Rightarrow>
   (exn + string) \<times> backend_call list" where
  "generate rt b s prompt target_lang history max_new_tokens temperature =
     (case build_messages rt prompt target_lang history of
        Inl e \<Rightarrow> (Inl e, [])
      | Inr messages \<Rightarrow>
     (case tokenizer s of
        None \<Rightarrow> (Inl (Exn AttributeError (no_attribute PNone ''apply_chat_template'')), [])
      | Some tok \<Rightarrow>
     (let c1 = [ApplyChatTemplate tok messages] in
      case apply_chat_template b tok messages of
        Inl e \<Rightarrow> (Inl e, c1)
      | Inr text \<Rightarrow>
     (let c2 = c1 @ [TokenizerCall tok text] in
      case tokenizer_call b tok text of
        Inl e \<Rightarrow> (Inl e, c2)
      | Inr encoding \<Rightarrow>
     (case model s of
        None \<Rightarrow> (Inl (Exn AttributeError (no_attribute PNone ''device'')), c2)
      | Some mdl \<Rightarrow>
     (let c3 = c2 @ [InputsTo encoding mdl] in
      case inputs_to b encoding mdl of
        Inl e \<Rightarrow> (Inl e, c3)
      | Inr inputs \<Rightarrow>
     (case py_gt_zero temperature of
        Inl e \<Rightarrow> (Inl e, c3)
      | Inr do_sample \<Rightarrow>
     (let c4 = c3 @ [ModelGenerate mdl tok inputs max_new_tokens temperature do_sample] in
      case model_generate b mdl tok inputs max_new_tokens temperature do_sample of
        Inl e \<Rightarrow> (Inl e, c4)
      | Inr outputs \<Rightarrow>
     (let c5 = c4 @ [Decode tok outputs] in
      case decode b tok outputs of
        Inl e \<Rightarrow> (Inl e, c5)
      | Inr response \<Rightarrow> (Inr (extract_response response), c5))))))))))"

section \<open>The command loop\<close>

text \<open>
  What processing one input line leaves behind: the server object, the response objects
  printed (each through \<^verbatim>\<open>json.dumps\<close>, on a line of its own), whether the loop goes on
  to the next line, and the backend calls made.
\<close>

record step_result =
  state :: server
  emitted :: "pyval list"
  continue :: bool
  calls :: "backend_call list"

definition respond :: "server \<Rightarrow> pyval \<Rightarrow> backend_call list \<Rightarrow> step_result" where
  "respond s response cs = \<lparr>state = s, emitted = [response], continue = True, calls = cs\<rparr>"

definition error_response :: "string \<Rightarrow> pyval" where
  "error_response msg = PDict [(''error'', PStr msg)]"

text \<open>
  The two handlers of the loop body (lines 225 to 234). The \<^verbatim>\<open>try\<close> encloses the whole
  body, so they see every exception raised in it, whether by \<^verbatim>\<open>json.loads\<close>, by
  \<^verbatim>\<open>request.get\<close> or by \<^verbatim>\<open>server.generate\<close>: a \<^verbatim>\<open>json.JSONDecodeError\<close> is printed
  with the prefix \<^verbatim>\<open>Invalid JSON: \<close>, every other exception with its bare message.
  \<open>cs\<close> are the backend calls made before the exception.
\<close>

definition report_exception :: "server \<Rightarrow> exn \<Rightarrow> backend_call list \<Rightarrow> step_result" where
  "report_exception s e cs =
     (case e of
        Exn c msg \<Rightarrow>
          if c = JSONDecodeError
          then respond s (error_response (''Invalid JSON: '' @ msg)) cs
          else respond s (error_response msg) cs)"

text \<open>The default of \<^verbatim>\<open>request.get("temperature", 0.7)\<close>: the double nearest to 0.7.\<close>

definition default_temperature :: pyval where
  "default_temperature = PFloat (Finite 3152519739159347 (- 52))"

text \<open>Lines 180 to 223: the dispatch on the command of a request that is a dictionary.\<close>

definition dispatch ::
  "runtime \<Rightarrow> backend \<Rightarrow> server \<Rightarrow> (string \<times> pyval) list \<Rightarrow> step_result" where
  "dispatch rt b s request =
     (let command = dict_get request ''command'' PNone in
      if command = PStr ''load_model''
      then (case load_model b s of
              (success, s', cs) \<Rightarrow>
                respond s' (PDict [(''status'', PStr (if success then ''loaded'' else ''failed''))]) cs)
      else if command = PStr ''generate''
      then (if model s = None
            then respond s (error_response ''Model not loaded'') []
            else (let prompt = dict_get request ''prompt'' (PStr []);
                      target_lang = dict_get request ''target_lang'' PNone;
                      history = dict_get request ''history'' (PList []);
                      max_tokens = dict_get request ''max_tokens'' (PInt 128);
                      temperature = dict_get request ''temperature'' default_temperature
                  in case generate rt b s prompt target_lang history max_tokens temperature of
                       (Inl e, cs) \<Rightarrow> report_exception s e cs
                     | (Inr text, cs) \<Rightarrow>
                         respond s (PDict [(''text'', PStr text), (''status'', PStr ''success'')]) cs))
      else if command = PStr ''test''
      then respond s (PDict [(''status'', PStr ''ok''), (''model_loaded'', PBool (model s \<noteq> None))]) []
      else if command = PStr ''shutdown''
      then \<lparr>state = s, emitted = [], continue = False, calls = []\<rparr>
      else respond s (error_response (''Unknown command: '' @ py_format rt command)) [])"

text \<open>
  Lines 172 to 234: the body of the loop with its two handlers. A blank line is skipped.
  \<^verbatim>\<open>json.loads\<close> raises \<^verbatim>\<open>JSONDecodeError\<close> on a line that is not JSON (and, for
  instance, \<^verbatim>\<open>RecursionError\<close> on very deep nesting or \<^verbatim>\<open>ValueError\<close> on an integer
  literal beyond the digit limit); \<^verbatim>\<open>request.get\<close> on a parsed value that is not a
  dictionary raises \<^verbatim>\<open>AttributeError\<close>.
\<close>

definition main_step :: "runtime \<Rightarrow> backend \<Rightarrow> server \<Rightarrow> string \<Rightarrow> step_result" where
  "main_step rt b s raw =
     (let line = py_strip raw in
      if line = []
      then \<lparr>state = s, emitted = [], continue = True, calls = []\<rparr>
      else (case json_loads rt line of
              Inl e \<Rightarrow> report_exception s e []
            | Inr request \<Rightarrow>
                (case request of
                   PDict items \<Rightarrow> dispatch rt b s items
                 | _ \<Rightarrow> report_exception s (Exn AttributeError (no_attribute request ''get'')) [])))"

text \<open>
  The loop \<^verbatim>\<open>for line in sys.stdin\<close> over the lines read, each with the backend
  behaviour of its moment: it ends with the input or at \<^verbatim>\<open>shutdown\<close>. The result is
  the server object at the end, the responses printed and the backend calls made.
\<close>

fun main_loop ::
  "runtime \<Rightarrow> server \<Rightarrow> (backend \<times> string) list \<Rightarrow> server \<times> pyval list \<times> backend_call list" where
  "main_loop rt s [] = (s, [], [])"
| "main_loop rt s ((b, raw) # rest) =
     (let r = main_step rt b s raw in
      if continue r
      then (case main_loop rt (state r) rest of
              (s', out, cs) \<Rightarrow> (s', emitted r @ out, calls r @ cs))
      else (state r, emitted r, calls r))"

text \<open>
  \<^verbatim>\<open>main\<close> from line 164 on: the server object is created, the sentinel \<^verbatim>\<open>READY\<close> is
  printed, then the loop runs. (\<^verbatim>\<open>--use-cache\<close> is a flag whose default is already
  \<^verbatim>\<open>True\<close>.)
\<close>

datatype output_line = Sentinel string | Json pyval

definition main ::
  "runtime \<Rightarrow> string \<Rightarrow> (backend \<times> string) list \<Rightarrow> server \<times> output_line list \<times> backend_call list" where
  "main rt mid input =
     (case main_loop rt (LLMServer mid True) input of
        (s, out, cs) \<Rightarrow> (s, Sentinel ''READY'' # map Json out, cs))"

text \<open>
  A stand-in for \<^verbatim>\<open>json.loads\<close> on a few given lines: the table lists, for each line,
  the object \<^verbatim>\<open>json.loads\<close> returns for it; any other line is taken not to be JSON.
\<close>

definition loads_table :: "(string \<times> pyval) list \<Rightarrow> string \<Rightarrow> exn + pyval" where
  "loads_table tbl line =
     (case map_of tbl line of
        Some v \<Rightarrow> Inr v
      | None \<Rightarrow> Inl (Exn JSONDecodeError ''Expecting value: line 1 column 1 (char 0)''))"

section \<open>Observations and example environments\<close>

text \<open>
  The temperature and the sampling flag of every call of \<^verbatim>\<open>self.model.generate\<close> among
  the backend calls of a command.
\<close>

fun sampling_requests :: "backend_call list \<Rightarrow> (pyval \<times> bool) list" where
  "sampling_requests [] = []"
| "sampling_requests (ModelGenerate mdl tok inputs n temp ds # cs) = (temp, ds) # sampling_requests cs"
| "sampling_requests (c # cs) = sampling_requests cs"

text \<open>
  Concrete environments for the examples below: a few protocol lines with the objects
  \<^verbatim>\<open>json.loads\<close> returns for them, a backend on a machine without GPU where every call
  succeeds, one where \<^verbatim>\<open>self.model.to\<close> raises, one where the tokenizer files are
  missing, one whose decoder raises \<^verbatim>\<open>json.JSONDecodeError\<close>, one whose model answers
  sampled and greedy generation differently, and a server object after a successful
  load. \<open>digit_limit_loads\<close> adds to the table what CPython 3.11 does with an integer
  literal of more than 4300 digits: \<^verbatim>\<open>json.loads\<close> raises \<^verbatim>\<open>ValueError\<close> (the message is
  abridged here).
\<close>

definition example_lines :: "(string \<times> pyval) list" where
  "example_lines =
     [(''{\"command\":\"test\"}'', PDict [(''command'', PStr ''test'')]),
      (''{\"command\":\"load_model\"}'', PDict [(''command'', PStr ''load_model'')]),
      (''{\"command\":\"generate\"}'', PDict [(''command'', PStr ''generate'')]),
      (''{\"command\":\"generate\",\"prompt\":\"Hi\"}'',
         PDict [(''command'', PStr ''generate''), (''prompt'', PStr ''Hi'')]),
      (''{\"command\":\"generate\",\"prompt\":\"Hi\",\"temperature\":\"hot\"}'',
         PDict [(''command'', PStr ''generate''), (''prompt'', PStr ''Hi''),
                (''temperature'', PStr ''hot'')]),
      (''{\"command\":\"generate\",\"prompt\":\"Hi\",\"temperature\":0}'',
         PDict [(''command'', PStr ''generate''), (''prompt'', PStr ''Hi''),
                (''temperature'', PInt 0)]),
      (''{\"command\":\"generate\",\"prompt\":\"Hi\",\"target_lang\":\"French\",\"history\":[\"Salut\",\"Hello\"]}'',
         PDict [(''command'', PStr ''generate''), (''prompt'', PStr ''Hi''),
                (''target_lang'', PStr ''French''),
                (''history'', PList [PStr ''Salut'', PStr ''Hello''])]),
      (''[]'', PList []),
      (''\"hello\"'', PStr ''hello'')]"

definition example_runtime :: runtime where
  "example_runtime = \<lparr>json_loads = loads_table example_lines, py_repr = (\<lambda>v. ''<repr>'')\<rparr>"

definition example_backend :: backend where
  "example_backend =
     \<lparr>cuda_is_available = False,
      tokenizer_from_pretrained = (\<lambda>mid cache. Inr 1),
      model_from_pretrained = (\<lambda>mid dev cache. Inr 2),
      model_to = (\<lambda>mdl dev. Inr mdl),
      apply_chat_template = (\<lambda>tok msgs. Inr ''<transcript>''),
      tokenizer_call = (\<lambda>tok text. Inr [1, 2, 3]),
      inputs_to = (\<lambda>enc mdl. Inr enc),
      model_generate = (\<lambda>mdl tok inputs n temp ds. Inr (inputs @ [4])),
      decode = (\<lambda>tok outputs. Inr ''system\<newline>Be brief.\<newline>user\<newline>Hi\<newline>assistant\<newline>Hello there'')\<rparr>"

definition loaded_server :: server where
  "loaded_server = (LLMServer ''Qwen/Qwen2.5-3B-Instruct'' True)
     \<lparr>model := Some 2, tokenizer := Some 1, device := Some ''cpu''\<rparr>"


definition failing_to_backend :: backend where
  "failing_to_backend =
     example_backend\<lparr>model_to := (\<lambda>mdl dev. Inl (Exn ValueError ''.to is not supported for this model''))\<rparr>"

definition offline_backend :: backend where
  "offline_backend =
     example_backend\<lparr>tokenizer_from_pretrained :=
       (\<lambda>mid cache. Inl (Exn OSError ''tokenizer files not found''))\<rparr>"

definition json_error_backend :: backend where
  "json_error_backend =
     example_backend\<lparr>decode :=
       (\<lambda>tok outputs. Inl (Exn JSONDecodeError ''Expecting value: line 1 column 1 (char 0)''))\<rparr>"

definition flag_backend :: backend where
  "flag_backend =
     example_backend\<lparr>model_generate :=
       (\<lambda>mdl tok inputs n temp ds. Inr (inputs @ [if ds then 1 else 0])),
      decode :=
       (\<lambda>tok outputs. Inr (if last outputs = 1 then ''user\<newline>Hi\<newline>assistant\<newline>sampled''
                              else ''user\<newline>Hi\<newline>assistant\<newline>greedy''))\<rparr>"

definition digit_limit_loads :: "string \<Rightarrow> exn + pyval" where
  "digit_limit_loads line =
     (if 4300 < length line \<and> set line \<subseteq> set ''0123456789''
      then Inl (Exn ValueError ''Exceeds the limit (4300 digits) for integer string conversion'')
      else loads_table example_lines line)"

definition digit_limit_runtime :: runtime where
  "digit_limit_runtime = \<lparr>json_loads = digit_limit_loads, py_repr = (\<lambda>v. ''<repr>'')\<rparr>"

section \<open>The response extractor finds the last marker\<close>

lemma split_scan_not_Nil: "split_scan sep cur s \<noteq> []"
  by (induction sep cur s rule: split_scan.induct) auto

lemma split_scan_no_occurrence:
  "\<not> sublist sep s \<Longrightarrow> split_scan sep cur s = [rev cur @ s]"
  by (induction sep cur s rule: split_scan.induct) (auto simp: sublist_Cons_right)

lemma unbordered_dropD:
  assumes "unbordered sep" "0 < k" "k < length sep"
  shows "\<not> prefix (drop k sep) sep"
  using assms unfolding unbordered_def list_all_iff by auto

lemma unbordered_no_overlap:
  assumes u: "unbordered sep" and eq: "sep @ rest = ps @ sep @ r" and ne: "ps \<noteq> []"
  shows "length sep \<le> length ps"
proof (rule ccontr)
  assume "\<not> length sep \<le> length ps"
  then have lt: "length ps < length sep" by simp
  from eq have "take (length ps) (sep @ rest) = ps" by simp
  with lt have ps: "ps = take (length ps) sep" by simp
  from eq have "drop (length ps) (sep @ rest) = sep @ r" by simp
  with lt have d: "drop (length ps) sep @ rest = sep @ r" by simp
  have "length (drop (length ps) sep) \<le> length sep" by simp
  with d have "prefix (drop (length ps) sep) sep"
    by (metis append_eq_append_conv_if prefixI take_is_prefix prefix_def)
  moreover have "0 < length ps" using ne by simp
  ultimately show False using unbordered_dropD [OF u _ lt] by blast
qed

lemma split_scan_last:
  "sep \<noteq> [] \<Longrightarrow> unbordered sep \<Longrightarrow> t = ps @ sep @ r \<Longrightarrow> \<not> sublist sep (tl (sep @ r)) \<Longrightarrow>
   last (split_scan sep cur t) = r"
proof (induction sep cur t arbitrary: ps rule: split_scan.induct)
  case (1 sep cur)
  then show ?case by simp
next
  case (2 sep cur c cs)
  note ne = \<open>sep \<noteq> []\<close> and ub = \<open>unbordered sep\<close> and eq = \<open>c # cs = ps @ sep @ r\<close>
    and last_occ = \<open>\<not> sublist sep (tl (sep @ r))\<close>
  show ?case
  proof (cases "prefix sep (c # cs)")
    case True
    then obtain rest where rest: "c # cs = sep @ rest" by (auto simp: prefix_def)
    have dr: "drop (length sep) (c # cs) = rest" using rest by simp
    have sc: "last (split_scan sep cur (c # cs)) = last (split_scan sep [] rest)"
      using True ne dr split_scan_not_Nil [of sep "[]" rest] by simp
    show ?thesis
    proof (cases "ps = []")
      case True
      with eq rest have "rest = r" by simp
      moreover have "\<not> sublist sep r"
      proof
        assume "sublist sep r"
        then have "sublist sep (tl sep @ r)" by (simp add: sublist_append)
        then show False using last_occ ne by simp
      qed
      ultimately show ?thesis using sc by (simp add: split_scan_no_occurrence)
    next
      case False
      have le: "length sep \<le> length ps"
        using unbordered_no_overlap [OF ub _ False] eq rest by metis
      from eq rest have e2: "sep @ rest = ps @ sep @ r" by simp
      then have "take (length sep) (sep @ rest) = take (length sep) (ps @ sep @ r)" by simp
      with le have "sep = take (length sep) ps" by simp
      then obtain ps' where ps': "ps = sep @ ps'" by (metis append_take_drop_id)
      with e2 have "rest = ps' @ sep @ r" by simp
      then have "drop (length sep) (c # cs) = ps' @ sep @ r" using dr by simp
      from "2.IH"(1) [OF _ ne ub this last_occ] True ne
      have "last (split_scan sep [] (drop (length sep) (c # cs))) = r" by simp
      then show ?thesis using sc dr by simp
    qed
  next
    case False
    then have "ps \<noteq> []" using eq by auto
    then obtain ps' where ps': "ps = c # ps'" using eq by (cases ps) auto
    with eq have "cs = ps' @ sep @ r" by simp
    from "2.IH"(2) [OF _ ne ub this last_occ] False
    have "last (split_scan sep (c # cur) cs) = r" by simp
    then show ?thesis using False by simp
  qed
qed

lemma after_last_occurrence_None_iff:
  "sep \<noteq> [] \<Longrightarrow> after_last_occurrence sep t = None \<longleftrightarrow> \<not> sublist sep t"
  by (induction t) (auto simp: sublist_Cons_right split: option.splits)

lemma after_last_occurrence_SomeD:
  "sep \<noteq> [] \<Longrightarrow> after_last_occurrence sep t = Some r \<Longrightarrow>
   \<exists>ps. t = ps @ sep @ r \<and> \<not> sublist sep (tl (sep @ r))"
proof (induction t)
  case Nil
  then show ?case by simp
next
  case (Cons c cs)
  show ?case
  proof (cases "after_last_occurrence sep cs")
    case None
    with Cons.prems have p: "prefix sep (c # cs)" and r: "r = drop (length sep) (c # cs)"
      by (auto split: if_splits)
    from p r have "c # cs = [] @ sep @ r" by (auto simp: prefix_def)
    moreover from this have "tl (sep @ r) = cs" by (metis append_Nil list.sel(3))
    moreover have "\<not> sublist sep cs"
      using None Cons.prems(1) by (simp add: after_last_occurrence_None_iff)
    ultimately show ?thesis by metis
  next
    case (Some r')
    with Cons.prems have "r' = r" by simp
    with Some Cons.IH [OF Cons.prems(1)] obtain ps where
      "cs = ps @ sep @ r" "\<not> sublist sep (tl (sep @ r))" by auto
    then have "c # cs = (c # ps) @ sep @ r \<and> \<not> sublist sep (tl (sep @ r))" by simp
    then show ?thesis by blast
  qed
qed

lemma unbordered_marker_newline: "unbordered ''assistant\<newline>''"
  by (simp add: unbordered_def upt_rec)

lemma unbordered_marker: "unbordered ''assistant''"
  by (simp add: unbordered_def upt_rec)

lemma last_split_eq:
  assumes "sep \<noteq> []" "unbordered sep"
  shows "last (py_split sep t) = (case after_last_occurrence sep t of Some r \<Rightarrow> r | None \<Rightarrow> t)"
proof (cases "after_last_occurrence sep t")
  case None
  then have "\<not> sublist sep t" using assms(1) by (simp add: after_last_occurrence_None_iff)
  then show ?thesis using None by (simp add: py_split_def split_scan_no_occurrence)
next
  case (Some r)
  from after_last_occurrence_SomeD [OF assms(1) Some] obtain ps where
    "t = ps @ sep @ r" "\<not> sublist sep (tl (sep @ r))" by blast
  from split_scan_last [OF assms this] show ?thesis using Some by (simp add: py_split_def)
qed

lemma extract_response_eq_spec: "extract_response t = spec_extract t"
proof -
  have a: "sublist ''assistant\<newline>'' t \<longleftrightarrow> after_last_occurrence ''assistant\<newline>'' t \<noteq> None"
    using after_last_occurrence_None_iff [of "''assistant\<newline>''" t] by simp
  have b: "sublist ''assistant'' t \<longleftrightarrow> after_last_occurrence ''assistant'' t \<noteq> None"
    using after_last_occurrence_None_iff [of "''assistant''" t] by simp
  have c: "last (py_split ''assistant\<newline>'' t) =
      (case after_last_occurrence ''assistant\<newline>'' t of Some r \<Rightarrow> r | None \<Rightarrow> t)"
    by (rule last_split_eq [OF _ unbordered_marker_newline]) simp
  have d: "last (py_split ''assistant'' t) =
      (case after_last_occurrence ''assistant'' t of Some r \<Rightarrow> r | None \<Rightarrow> t)"
    by (rule last_split_eq [OF _ unbordered_marker]) simp
  show ?thesis
    unfolding extract_response_def spec_extract_def a b c d
    by (simp split: option.splits)
qed


lemma later_occurrence:
  assumes "ps @ sep @ r = ps' @ sep @ r'" "length ps < length ps'"
  shows "sublist sep (tl (sep @ r))"
proof -
  from assms have "take (length ps) (ps' @ sep @ r') = ps" by (metis append_eq_conv_conj)
  with assms(2) have "ps = take (length ps) ps'" by simp
  then obtain v where v: "ps' = ps @ v" by (metis append_take_drop_id)
  with assms(2) have "v \<noteq> []" by auto
  then obtain x u where xu: "v = x # u" by (cases v) auto
  from assms(1) v have "sep @ r = v @ sep @ r'" by simp
  with xu have "tl (sep @ r) = u @ sep @ r'" by simp
  then show ?thesis by (simp add: sublist_def) blast
qed

lemma after_last_occurrence_Some_iff:
  assumes "sep \<noteq> []"
  shows "after_last_occurrence sep t = Some r \<longleftrightarrow>
    (\<exists>ps. t = ps @ sep @ r \<and> (\<forall>ps' r'. t = ps' @ sep @ r' \<longrightarrow> length ps' \<le> length ps))"
proof
  assume "after_last_occurrence sep t = Some r"
  from after_last_occurrence_SomeD [OF assms this] obtain ps where
    ps: "t = ps @ sep @ r" "\<not> sublist sep (tl (sep @ r))" by blast
  have "length ps' \<le> length ps" if "t = ps' @ sep @ r'" for ps' r'
    using later_occurrence [of ps sep r ps' r'] ps that by force
  with ps(1) show "\<exists>ps. t = ps @ sep @ r \<and> (\<forall>ps' r'. t = ps' @ sep @ r' \<longrightarrow> length ps' \<le> length ps)"
    by blast
next
  assume "\<exists>ps. t = ps @ sep @ r \<and> (\<forall>ps' r'. t = ps' @ sep @ r' \<longrightarrow> length ps' \<le> length ps)"
  then obtain ps where ps: "t = ps @ sep @ r"
    and mx: "\<And>ps' r'. t = ps' @ sep @ r' \<Longrightarrow> length ps' \<le> length ps" by blast
  from ps have "sublist sep t" by (auto simp: sublist_def)
  then obtain r0 where r0: "after_last_occurrence sep t = Some r0"
    using after_last_occurrence_None_iff [OF assms, of t] by auto
  from after_last_occurrence_SomeD [OF assms r0] obtain ps0 where
    ps0: "t = ps0 @ sep @ r0" "\<not> sublist sep (tl (sep @ r0))" by blast
  have "length ps0 \<le> length ps" using mx [OF ps0(1)] .
  moreover have "\<not> length ps0 < length ps"
    using later_occurrence [of ps0 sep r0 ps r] ps ps0 by force
  ultimately have "length ps0 = length ps" by simp
  with ps ps0(1) have "r0 = r" by simp
  with r0 show "after_last_occurrence sep t = Some r" by simp
qed

lemma py_strip_Hello_there: "py_strip ''Hello there'' = ''Hello there''"
  by (simp add: py_strip_def py_isspace_def)

lemma scenario_D: "extract_response (p @ ''assistant\<newline>Hello there'') = ''Hello there''"
proof -
  let ?sep = "''assistant\<newline>''"
  have t: "p @ ''assistant\<newline>Hello there'' = p @ ?sep @ ''Hello there''" by simp
  have occ: "sublist ?sep (p @ ''assistant\<newline>Hello there'')"
    unfolding t by (rule sublist_appendI)
  have no: "\<not> sublist ?sep (tl (?sep @ ''Hello there''))"
    by (simp add: sublist_Cons_right)
  have "last (split_scan ?sep [] (p @ ''assistant\<newline>Hello there'')) = ''Hello there''"
    by (rule split_scan_last [OF _ unbordered_marker_newline t no]) simp
  then show ?thesis
    using occ by (simp add: extract_response_def py_split_def py_strip_Hello_there)
qed

text \<open>
  Claim C2. For every decoded text \<open>t\<close> the extractor of \<^verbatim>\<open>generate\<close> returns what
  the policy of the specification describes: everything after the last occurrence of
  \<^verbatim>\<open>"assistant\n"\<close>, stripped, if that marker occurs; otherwise everything after the last
  occurrence of \<^verbatim>\<open>"assistant"\<close>, stripped, if that occurs; otherwise \<open>t\<close> itself,
  unchanged. In particular every text that ends in \<^verbatim>\<open>"assistant\nHello there"\<close> yields
  \<^verbatim>\<open>"Hello there"\<close>.
\<close>

theorem extract_response_policy:
  "extract_response t = spec_extract t \<and>
   (\<forall>p. extract_response (p @ ''assistant\<newline>Hello there'') = ''Hello there'')"
  using extract_response_eq_spec scenario_D by blast

theorem extract_response_policy_witness:
  "extract_response ''system\<newline>Be brief.\<newline>user\<newline>Hi\<newline>assistant\<newline>  Hello there \<newline>'' = ''Hello there'' \<and>
   extract_response ''the assistant says: ok '' = ''says: ok'' \<and>
   extract_response '' no marker '' = '' no marker ''"
proof -
  have "spec_extract ''system\<newline>Be brief.\<newline>user\<newline>Hi\<newline>assistant\<newline>  Hello there \<newline>'' = ''Hello there''"
    by (simp add: spec_extract_def py_strip_def py_isspace_def)
  moreover have "spec_extract ''the assistant says: ok '' = ''says: ok''"
    by (simp add: spec_extract_def py_strip_def py_isspace_def)
  moreover have "spec_extract '' no marker '' = '' no marker ''"
    by (simp add: spec_extract_def)
  ultimately show ?thesis
    using extract_response_policy [of "''system\<newline>Be brief.\<newline>user\<newline>Hi\<newline>assistant\<newline>  Hello there \<newline>''"]
      extract_response_policy [of "''the assistant says: ok ''"]
      extract_response_policy [of "'' no marker ''"]
    by simp
qed

section \<open>The command loop: one line at a time\<close>

text \<open>The definitions that evaluating the examples unfolds.\<close>

lemmas example_simps =
  main_step_def py_strip_def py_isspace_def example_runtime_def loads_table_def
  example_lines_def dispatch_def dict_get_def load_model_def example_backend_def
  LLMServer_def loaded_server_def respond_def error_response_def Let_def
  generate_def build_messages_def system_message_def history_messages_def
  default_temperature_def no_attribute_def not_comparable_def not_iterable_def quoted_def
  failing_to_backend_def offline_backend_def json_error_backend_def flag_backend_def
  report_exception_def

lemma main_step_blank:
  "py_strip raw = [] \<Longrightarrow>
   main_step rt b s raw = \<lparr>state = s, emitted = [], continue = True, calls = []\<rparr>"
  by (simp add: main_step_def)

lemma main_step_dict:
  "py_strip raw \<noteq> [] \<Longrightarrow> json_loads rt (py_strip raw) = Inr (PDict request) \<Longrightarrow>
   main_step rt b s raw = dispatch rt b s request"
  by (simp add: main_step_def)

lemma main_loop_respond:
  "main_step rt b s raw = \<lparr>state = s', emitted = out1, continue = True, calls = cs1\<rparr> \<Longrightarrow>
   main_loop rt s ((b, raw) # rest) =
     (case main_loop rt s' rest of (s'', out, cs) \<Rightarrow> (s'', out1 @ out, cs1 @ cs))"
  by simp

text \<open>
  Claim C3. A \<^verbatim>\<open>generate\<close> command that arrives while no model is loaded is answered
  with exactly \<^verbatim>\<open>{"error": "Model not loaded"}\<close>: neither \<^verbatim>\<open>generate\<close> nor the backend is
  called, the server object is unchanged, and the loop goes on with the next line.
\<close>

theorem generate_model_not_loaded:
  assumes "py_strip raw \<noteq> []"
    and "json_loads rt (py_strip raw) = Inr (PDict request)"
    and "dict_get request ''command'' PNone = PStr ''generate''"
    and "model s = None"
  shows "main_step rt b s raw =
           \<lparr>state = s, emitted = [PDict [(''error'', PStr ''Model not loaded'')]],
            continue = True, calls = []\<rparr> \<and>
         main_loop rt s ((b, raw) # rest) =
           (case main_loop rt s rest of
              (s', out, cs) \<Rightarrow> (s', PDict [(''error'', PStr ''Model not loaded'')] # out, cs))"
proof -
  have step: "main_step rt b s raw =
      \<lparr>state = s, emitted = [PDict [(''error'', PStr ''Model not loaded'')]],
       continue = True, calls = []\<rparr>"
    using assms by (simp add: main_step_dict dispatch_def respond_def error_response_def)
  from main_loop_respond [OF step] show ?thesis using step by simp
qed

theorem generate_model_not_loaded_witness:
  "main_step example_runtime example_backend (LLMServer ''Qwen/Qwen2.5-3B-Instruct'' True)
     ''{\"command\":\"generate\",\"prompt\":\"Hi\"}\<newline>'' =
     \<lparr>state = LLMServer ''Qwen/Qwen2.5-3B-Instruct'' True,
      emitted = [PDict [(''error'', PStr ''Model not loaded'')]],
      continue = True, calls = []\<rparr> \<and>
   main_loop example_runtime (LLMServer ''Qwen/Qwen2.5-3B-Instruct'' True)
     [(example_backend, ''{\"command\":\"generate\",\"prompt\":\"Hi\"}\<newline>''),
      (example_backend, ''{\"command\":\"test\"}\<newline>'')] =
     (LLMServer ''Qwen/Qwen2.5-3B-Instruct'' True,
      [PDict [(''error'', PStr ''Model not loaded'')],
       PDict [(''status'', PStr ''ok''), (''model_loaded'', PBool False)]],
      [])"
proof -
  let ?raw = "''{\"command\":\"generate\",\"prompt\":\"Hi\"}\<newline>''"
  let ?req = "[(''command'', PStr ''generate''), (''prompt'', PStr ''Hi'')]"
  let ?s = "LLMServer ''Qwen/Qwen2.5-3B-Instruct'' True"
  have h1: "py_strip ?raw \<noteq> []" by (simp add: py_strip_def py_isspace_def)
  have h2: "json_loads example_runtime (py_strip ?raw) = Inr (PDict ?req)"
    by (simp add: example_simps)
  have h3: "dict_get ?req ''command'' PNone = PStr ''generate''" by (simp add: dict_get_def)
  have h4: "model ?s = None" by (simp add: LLMServer_def)
  have t: "main_loop example_runtime ?s [(example_backend, ''{\"command\":\"test\"}\<newline>'')] =
      (?s, [PDict [(''status'', PStr ''ok''), (''model_loaded'', PBool False)]], [])"
    by (simp add: example_simps)
  from generate_model_not_loaded [OF h1 h2 h3 h4, of example_backend
      "[(example_backend, ''{\"command\":\"test\"}\<newline>'')]"]
  show ?thesis using t by (simp del: main_loop.simps)
qed

section \<open>Generation commands\<close>

lemma generate_success:
  assumes "build_messages rt p lang h = Inr msgs"
    and "tokenizer s = Some tok"
    and "apply_chat_template b tok msgs = Inr text"
    and "tokenizer_call b tok text = Inr enc"
    and "model s = Some mdl"
    and "inputs_to b enc mdl = Inr inputs"
    and "py_gt_zero temp = Inr ds"
    and "model_generate b mdl tok inputs n temp ds = Inr outputs"
    and "decode b tok outputs = Inr response"
  shows "generate rt b s p lang h n temp =
    (Inr (extract_response response),
     [ApplyChatTemplate tok msgs, TokenizerCall tok text, InputsTo enc mdl,
      ModelGenerate mdl tok inputs n temp ds, Decode tok outputs])"
  using assms by (simp add: generate_def)

lemma dispatch_generate:
  assumes "dict_get request ''command'' PNone = PStr ''generate''" and "model s \<noteq> None"
  shows "dispatch rt b s request =
    (case generate rt b s (dict_get request ''prompt'' (PStr []))
            (dict_get request ''target_lang'' PNone) (dict_get request ''history'' (PList []))
            (dict_get request ''max_tokens'' (PInt 128))
            (dict_get request ''temperature'' default_temperature) of
       (Inl e, cs) \<Rightarrow> report_exception s e cs
     | (Inr text, cs) \<Rightarrow>
         respond s (PDict [(''text'', PStr text), (''status'', PStr ''success'')]) cs)"
  using assms by (auto simp: dispatch_def)

text \<open>
  \<^verbatim>\<open>generate\<close> ends with the exception of whichever stage raises first: the conversation
  build at one end, decoding at the other, and likewise every backend call between.
\<close>

lemma generate_build_failure:
  "build_messages rt p lang h = Inl e \<Longrightarrow> generate rt b s p lang h n temp = (Inl e, [])"
  by (simp add: generate_def)

lemma generate_decode_failure:
  assumes "build_messages rt p lang h = Inr msgs"
    and "tokenizer s = Some tok"
    and "apply_chat_template b tok msgs = Inr rendered"
    and "tokenizer_call b tok rendered = Inr enc"
    and "model s = Some mdl"
    and "inputs_to b enc mdl = Inr inputs"
    and "py_gt_zero temp = Inr ds"
    and "model_generate b mdl tok inputs n temp ds = Inr outputs"
    and "decode b tok outputs = Inl e"
  shows "fst (generate rt b s p lang h n temp) = Inl e"
  using assms by (simp add: generate_def)

lemma generate_backend_failure:
  assumes "build_messages rt p lang h = Inr msgs"
    and "tokenizer s = Some tok"
    and "apply_chat_template b tok msgs = Inr rendered"
    and "tokenizer_call b tok rendered = Inr enc"
    and "model s = Some mdl"
    and "inputs_to b enc mdl = Inr inputs"
    and "py_gt_zero temp = Inr ds"
    and "model_generate b mdl tok inputs n temp ds = Inl e"
  shows "fst (generate rt b s p lang h n temp) = Inl e"
  using assms by (simp add: generate_def)

text \<open>
  Claim C7 says that the response to an exception raised during \<^verbatim>\<open>generate\<close> is
  \<^verbatim>\<open>{"error": <message>}\<close> with the message of the exception. The \<^verbatim>\<open>try\<close> of the loop
  encloses the call of \<^verbatim>\<open>server.generate\<close>, and its first handler catches
  \<^verbatim>\<open>json.JSONDecodeError\<close>: when the decoder of the backend raises an exception of that
  class, \<^verbatim>\<open>generate\<close> raises it again and the loop prints its message behind the
  prefix \<^verbatim>\<open>Invalid JSON: \<close>.
\<close>

theorem generate_json_error_counterexample:
  "generate example_runtime json_error_backend loaded_server (PStr ''Hi'') PNone (PList [])
     (PInt 128) default_temperature =
     (Inl (Exn JSONDecodeError ''Expecting value: line 1 column 1 (char 0)''),
      [ApplyChatTemplate 1
         [\<lparr>role = ''system'',
           content = PStr ''You are Qwen, created by Alibaba Cloud. You are a helpful assistant.''\<rparr>,
          \<lparr>role = ''user'', content = PStr ''Hi''\<rparr>],
       TokenizerCall 1 ''<transcript>'', InputsTo [1, 2, 3] 2,
       ModelGenerate 2 1 [1, 2, 3] (PInt 128) default_temperature True,
       Decode 1 [1, 2, 3, 4]]) \<and>
   emitted (main_step example_runtime json_error_backend loaded_server
     ''{\"command\":\"generate\",\"prompt\":\"Hi\"}\<newline>'') =
     [PDict [(''error'', PStr ''Invalid JSON: Expecting value: line 1 column 1 (char 0)'')]] \<and>
   ''Invalid JSON: Expecting value: line 1 column 1 (char 0)'' \<noteq>
     ''Expecting value: line 1 column 1 (char 0)''"
  by (simp add: example_simps)

text \<open>
  Claim C7, as the code has it. When \<^verbatim>\<open>generate\<close> ends with an exception, whether
  raised while the conversation is built, by a backend call or while decoding, and the
  model is loaded, the loop prints exactly one response \<^verbatim>\<open>{"error": ...}\<close>, keeps the
  server object, and continues with the next line. The response carries the message
  of the exception: as it is for every class but \<^verbatim>\<open>json.JSONDecodeError\<close>, and behind
  the prefix \<^verbatim>\<open>Invalid JSON: \<close> for that class.
\<close>

theorem generate_failure_reported:
  assumes "py_strip raw \<noteq> []"
    and "json_loads rt (py_strip raw) = Inr (PDict request)"
    and "dict_get request ''command'' PNone = PStr ''generate''"
    and "model s \<noteq> None"
    and "generate rt b s (dict_get request ''prompt'' (PStr []))
           (dict_get request ''target_lang'' PNone) (dict_get request ''history'' (PList []))
           (dict_get request ''max_tokens'' (PInt 128))
           (dict_get request ''temperature'' default_temperature) = (Inl (Exn c msg), cs)"
  shows "main_step rt b s raw =
           \<lparr>state = s,
            emitted = [PDict [(''error'',
              PStr (if c = JSONDecodeError then ''Invalid JSON: '' @ msg else msg))]],
            continue = True, calls = cs\<rparr> \<and>
         main_loop rt s ((b, raw) # rest) =
           (case main_loop rt s rest of
              (s', out, cs') \<Rightarrow>
                (s', PDict [(''error'',
                   PStr (if c = JSONDecodeError then ''Invalid JSON: '' @ msg else msg))] # out,
                 cs @ cs'))"
proof -
  have step: "main_step rt b s raw =
      \<lparr>state = s,
       emitted = [PDict [(''error'',
         PStr (if c = JSONDecodeError then ''Invalid JSON: '' @ msg else msg))]],
       continue = True, calls = cs\<rparr>"
    using assms
    by (simp add: main_step_dict dispatch_generate report_exception_def respond_def
        error_response_def)
  from main_loop_respond [OF step] show ?thesis using step by simp
qed

theorem generate_failure_reported_witness:
  "main_loop example_runtime loaded_server
     [(example_backend, ''{\"command\":\"generate\",\"prompt\":\"Hi\",\"temperature\":\"hot\"}\<newline>''),
      (json_error_backend, ''{\"command\":\"generate\",\"prompt\":\"Hi\"}\<newline>''),
      (example_backend, ''{\"command\":\"test\"}\<newline>'')] =
     (loaded_server,
      [PDict [(''error'', PStr (quoted ''>'' @ '' not supported between instances of '' @
                 quoted ''str'' @ '' and '' @ quoted ''int''))],
       PDict [(''error'', PStr ''Invalid JSON: Expecting value: line 1 column 1 (char 0)'')],
       PDict [(''status'', PStr ''ok''), (''model_loaded'', PBool True)]],
      [ApplyChatTemplate 1
         [\<lparr>role = ''system'',
           content = PStr ''You are Qwen, created by Alibaba Cloud. You are a helpful assistant.''\<rparr>,
          \<lparr>role = ''user'', content = PStr ''Hi''\<rparr>],
       TokenizerCall 1 ''<transcript>'', InputsTo [1, 2, 3] 2,
       ApplyChatTemplate 1
         [\<lparr>role = ''system'',
           content = PStr ''You are Qwen, created by Alibaba Cloud. You are a helpful assistant.''\<rparr>,
          \<lparr>role = ''user'', content = PStr ''Hi''\<rparr>],
       TokenizerCall 1 ''<transcript>'', InputsTo [1, 2, 3] 2,
       ModelGenerate 2 1 [1, 2, 3] (PInt 128) default_temperature True,
       Decode 1 [1, 2, 3, 4]])"
proof -
  let ?raw = "''{\"command\":\"generate\",\"prompt\":\"Hi\",\"temperature\":\"hot\"}\<newline>''"
  let ?req = "[(''command'', PStr ''generate''), (''prompt'', PStr ''Hi''),
               (''temperature'', PStr ''hot'')]"
  let ?raw2 = "''{\"command\":\"generate\",\"prompt\":\"Hi\"}\<newline>''"
  let ?req2 = "[(''command'', PStr ''generate''), (''prompt'', PStr ''Hi'')]"
  let ?msgs = "[\<lparr>role = ''system'',
           content = PStr ''You are Qwen, created by Alibaba Cloud. You are a helpful assistant.''\<rparr>,
          \<lparr>role = ''user'', content = PStr ''Hi''\<rparr>]"
  let ?cs = "[ApplyChatTemplate 1 ?msgs, TokenizerCall 1 ''<transcript>'', InputsTo [1, 2, 3] 2]"
  let ?cs2 = "[ApplyChatTemplate 1 ?msgs, TokenizerCall 1 ''<transcript>'', InputsTo [1, 2, 3] 2,
       ModelGenerate 2 1 [1, 2, 3] (PInt 128) default_temperature True,
       Decode 1 [1, 2, 3, 4]]"
  let ?t = "[(example_backend, ''{\"command\":\"test\"}\<newline>'')]"
  have h1: "py_strip ?raw \<noteq> []" by (simp add: py_strip_def py_isspace_def)
  have h2: "json_loads example_runtime (py_strip ?raw) = Inr (PDict ?req)"
    by (simp add: example_simps)
  have h3: "dict_get ?req ''command'' PNone = PStr ''generate''" by (simp add: dict_get_def)
  have h4: "model loaded_server \<noteq> None" by (simp add: loaded_server_def)
  have h5: "generate example_runtime example_backend loaded_server
      (dict_get ?req ''prompt'' (PStr [])) (dict_get ?req ''target_lang'' PNone)
      (dict_get ?req ''history'' (PList [])) (dict_get ?req ''max_tokens'' (PInt 128))
      (dict_get ?req ''temperature'' default_temperature) =
      (Inl (Exn TypeError (quoted ''>'' @ '' not supported between instances of '' @
                 quoted ''str'' @ '' and '' @ quoted ''int'')), ?cs)"
    by (simp add: example_simps)
  have k1: "py_strip ?raw2 \<noteq> []" by (simp add: py_strip_def py_isspace_def)
  have k2: "json_loads example_runtime (py_strip ?raw2) = Inr (PDict ?req2)"
    by (simp add: example_simps)
  have k3: "dict_get ?req2 ''command'' PNone = PStr ''generate''" by (simp add: dict_get_def)
  have k5: "generate example_runtime json_error_backend loaded_server
      (dict_get ?req2 ''prompt'' (PStr [])) (dict_get ?req2 ''target_lang'' PNone)
      (dict_get ?req2 ''history'' (PList [])) (dict_get ?req2 ''max_tokens'' (PInt 128))
      (dict_get ?req2 ''temperature'' default_temperature) =
      (Inl (Exn JSONDecodeError ''Expecting value: line 1 column 1 (char 0)''), ?cs2)"
    by (simp add: example_simps)
  have t: "main_loop example_runtime loaded_server ?t =
      (loaded_server, [PDict [(''status'', PStr ''ok''), (''model_loaded'', PBool True)]], [])"
    by (simp add: example_simps)
  from generate_failure_reported [OF k1 k2 k3 h4 k5, of ?t]
  have r2: "main_loop example_runtime loaded_server ((json_error_backend, ?raw2) # ?t) =
      (loaded_server,
       [PDict [(''error'', PStr ''Invalid JSON: Expecting value: line 1 column 1 (char 0)'')],
        PDict [(''status'', PStr ''ok''), (''model_loaded'', PBool True)]], ?cs2)"
    using t by (simp del: main_loop.simps)
  from generate_failure_reported [OF h1 h2 h3 h4 h5, of "(json_error_backend, ?raw2) # ?t"]
  show ?thesis using r2 by (simp del: main_loop.simps)
qed

lemma last_build_messages:
  "build_messages rt p lang h = Inr msgs \<Longrightarrow> last msgs = \<lparr>role = ''user'', content = p\<rparr>"
  by (auto simp: build_messages_def split: if_splits sum.splits)

lemma build_messages_prompt_independent:
  "build_messages rt p lang h = Inl e \<Longrightarrow> build_messages rt p' lang h = Inl e"
  by (auto simp: build_messages_def split: if_splits sum.splits)

text \<open>
  Claim C10. A \<^verbatim>\<open>generate\<close> command whose object has no \<^verbatim>\<open>prompt\<close> key is not
  rejected: \<^verbatim>\<open>generate\<close> is called with the empty string as prompt, the missing prompt
  raises nothing (a failure of the conversation build does not depend on the prompt),
  the last message of the conversation is the user message with empty content, and
  when the backend calls succeed the command is answered with the generated text.
\<close>

theorem generate_prompt_default:
  assumes "py_strip raw \<noteq> []"
    and "json_loads rt (py_strip raw) = Inr (PDict request)"
    and "dict_get request ''command'' PNone = PStr ''generate''"
    and "map_of request ''prompt'' = None"
    and "model s = Some mdl"
    and "dict_get request ''target_lang'' PNone = lang"
    and "dict_get request ''history'' (PList []) = h"
    and "dict_get request ''max_tokens'' (PInt 128) = n"
    and "dict_get request ''temperature'' default_temperature = temp"
  shows "main_step rt b s raw =
           (case generate rt b s (PStr []) lang h n temp of
              (Inl e, cs) \<Rightarrow> report_exception s e cs
            | (Inr text, cs) \<Rightarrow>
                respond s (PDict [(''text'', PStr text), (''status'', PStr ''success'')]) cs) \<and>
         (\<forall>msgs. build_messages rt (PStr []) lang h = Inr msgs \<longrightarrow>
            last msgs = \<lparr>role = ''user'', content = PStr []\<rparr>) \<and>
         (\<forall>e p. build_messages rt (PStr []) lang h = Inl e \<longrightarrow> build_messages rt p lang h = Inl e) \<and>
         (\<forall>msgs tok text enc inputs ds outputs response.
            build_messages rt (PStr []) lang h = Inr msgs \<and> tokenizer s = Some tok \<and>
            apply_chat_template b tok msgs = Inr text \<and> tokenizer_call b tok text = Inr enc \<and>
            inputs_to b enc mdl = Inr inputs \<and> py_gt_zero temp = Inr ds \<and>
            model_generate b mdl tok inputs n temp ds = Inr outputs \<and>
            decode b tok outputs = Inr response \<longrightarrow>
            main_step rt b s raw =
              \<lparr>state = s,
               emitted = [PDict [(''text'', PStr (extract_response response)),
                                 (''status'', PStr ''success'')]],
               continue = True,
               calls = [ApplyChatTemplate tok msgs, TokenizerCall tok text, InputsTo enc mdl,
                        ModelGenerate mdl tok inputs n temp ds, Decode tok outputs]\<rparr>)"
proof -
  have p: "dict_get request ''prompt'' (PStr []) = PStr []"
    using assms(4) by (simp add: dict_get_def)
  have step: "main_step rt b s raw =
           (case generate rt b s (PStr []) lang h n temp of
              (Inl e, cs) \<Rightarrow> report_exception s e cs
            | (Inr text, cs) \<Rightarrow>
                respond s (PDict [(''text'', PStr text), (''status'', PStr ''success'')]) cs)"
    using assms p by (simp add: main_step_dict dispatch_generate)
  show ?thesis
  proof (intro conjI allI impI)
    show "main_step rt b s raw =
           (case generate rt b s (PStr []) lang h n temp of
              (Inl e, cs) \<Rightarrow> report_exception s e cs
            | (Inr text, cs) \<Rightarrow>
                respond s (PDict [(''text'', PStr text), (''status'', PStr ''success'')]) cs)"
      by (rule step)
  next
    fix msgs assume "build_messages rt (PStr []) lang h = Inr msgs"
    then show "last msgs = \<lparr>role = ''user'', content = PStr []\<rparr>" by (rule last_build_messages)
  next
    fix e p assume "build_messages rt (PStr []) lang h = Inl e"
    then show "build_messages rt p lang h = Inl e" by (rule build_messages_prompt_independent)
  next
    fix msgs tok rendered enc inputs ds outputs response
    assume a: "build_messages rt (PStr []) lang h = Inr msgs \<and> tokenizer s = Some tok \<and>
            apply_chat_template b tok msgs = Inr rendered \<and> tokenizer_call b tok rendered = Inr enc \<and>
            inputs_to b enc mdl = Inr inputs \<and> py_gt_zero temp = Inr ds \<and>
            model_generate b mdl tok inputs n temp ds = Inr outputs \<and>
            decode b tok outputs = Inr response"
    then have "generate rt b s (PStr []) lang h n temp =
      (Inr (extract_response response),
       [ApplyChatTemplate tok msgs, TokenizerCall tok rendered, InputsTo enc mdl,
        ModelGenerate mdl tok inputs n temp ds, Decode tok outputs])"
      using assms(5) by (intro generate_success) auto
    then show "main_step rt b s raw =
              \<lparr>state = s,
               emitted = [PDict [(''text'', PStr (extract_response response)),
                                 (''status'', PStr ''success'')]],
               continue = True,
               calls = [ApplyChatTemplate tok msgs, TokenizerCall tok rendered, InputsTo enc mdl,
                        ModelGenerate mdl tok inputs n temp ds, Decode tok outputs]\<rparr>"
      using step by (simp add: respond_def)
  qed
qed


theorem generate_prompt_default_witness:
  "main_step example_runtime example_backend loaded_server ''{\"command\":\"generate\"}\<newline>'' =
     \<lparr>state = loaded_server,
      emitted = [PDict [(''text'', PStr ''Hello there''), (''status'', PStr ''success'')]],
      continue = True,
      calls = [ApplyChatTemplate 1
                 [\<lparr>role = ''system'',
                   content = PStr ''You are Qwen, created by Alibaba Cloud. You are a helpful assistant.''\<rparr>,
                  \<lparr>role = ''user'', content = PStr []\<rparr>],
               TokenizerCall 1 ''<transcript>'', InputsTo [1, 2, 3] 2,
               ModelGenerate 2 1 [1, 2, 3] (PInt 128) default_temperature True,
               Decode 1 [1, 2, 3, 4]]\<rparr>"
proof -
  let ?raw = "''{\"command\":\"generate\"}\<newline>''"
  let ?req = "[(''command'', PStr ''generate'')]"
  let ?msgs = "[\<lparr>role = ''system'',
                   content = PStr ''You are Qwen, created by Alibaba Cloud. You are a helpful assistant.''\<rparr>,
                  \<lparr>role = ''user'', content = PStr []\<rparr>]"
  let ?decoded = "''system\<newline>Be brief.\<newline>user\<newline>Hi\<newline>assistant\<newline>Hello there''"
  have h1: "py_strip ?raw \<noteq> []" by (simp add: py_strip_def py_isspace_def)
  have h2: "json_loads example_runtime (py_strip ?raw) = Inr (PDict ?req)"
    by (simp add: example_simps)
  have h3: "dict_get ?req ''command'' PNone = PStr ''generate''" by (simp add: dict_get_def)
  have h4: "map_of ?req ''prompt'' = None" by simp
  have h5: "model loaded_server = Some 2" by (simp add: loaded_server_def)
  have h6: "dict_get ?req ''target_lang'' PNone = PNone" by (simp add: dict_get_def)
  have h7: "dict_get ?req ''history'' (PList []) = PList []" by (simp add: dict_get_def)
  have h8: "dict_get ?req ''max_tokens'' (PInt 128) = PInt 128" by (simp add: dict_get_def)
  have h9: "dict_get ?req ''temperature'' default_temperature = default_temperature"
    by (simp add: dict_get_def)
  have stages: "build_messages example_runtime (PStr []) PNone (PList []) = Inr ?msgs \<and>
      tokenizer loaded_server = Some 1 \<and>
      apply_chat_template example_backend 1 ?msgs = Inr ''<transcript>'' \<and>
      tokenizer_call example_backend 1 ''<transcript>'' = Inr [1, 2, 3] \<and>
      inputs_to example_backend [1, 2, 3] 2 = Inr [1, 2, 3] \<and>
      py_gt_zero default_temperature = Inr True \<and>
      model_generate example_backend 2 1 [1, 2, 3] (PInt 128) default_temperature True =
        Inr [1, 2, 3, 4] \<and>
      decode example_backend 1 [1, 2, 3, 4] = Inr ?decoded"
    by (simp add: example_simps)
  have ex: "extract_response ?decoded = ''Hello there''"
    using scenario_D [of "''system\<newline>Be brief.\<newline>user\<newline>Hi\<newline>''"] by simp
  from generate_prompt_default [OF h1 h2 h3 h4 h5 h6 h7 h8 h9, of example_backend]
  have "\<forall>msgs tok text enc inputs ds outputs response.
      build_messages example_runtime (PStr []) PNone (PList []) = Inr msgs \<and>
      tokenizer loaded_server = Some tok \<and>
      apply_chat_template example_backend tok msgs = Inr text \<and>
      tokenizer_call example_backend tok text = Inr enc \<and>
      inputs_to example_backend enc 2 = Inr inputs \<and>
      py_gt_zero default_temperature = Inr ds \<and>
      model_generate example_backend 2 tok inputs (PInt 128) default_temperature ds = Inr outputs \<and>
      decode example_backend tok outputs = Inr response \<longrightarrow>
      main_step example_runtime example_backend loaded_server ?raw =
        \<lparr>state = loaded_server,
         emitted = [PDict [(''text'', PStr (extract_response response)),
                           (''status'', PStr ''success'')]],
         continue = True,
         calls = [ApplyChatTemplate tok msgs, TokenizerCall tok text, InputsTo enc 2,
                  ModelGenerate 2 tok inputs (PInt 128) default_temperature ds,
                  Decode tok outputs]\<rparr>"
    by blast
  from this stages have "main_step example_runtime example_backend loaded_server ?raw =
        \<lparr>state = loaded_server,
         emitted = [PDict [(''text'', PStr (extract_response ?decoded)),
                           (''status'', PStr ''success'')]],
         continue = True,
         calls = [ApplyChatTemplate 1 ?msgs, TokenizerCall 1 ''<transcript>'', InputsTo [1, 2, 3] 2,
                  ModelGenerate 2 1 [1, 2, 3] (PInt 128) default_temperature True,
                  Decode 1 [1, 2, 3, 4]]\<rparr>"
    by blast
  then show ?thesis unfolding ex .
qed

section \<open>The conversation and the generation call\<close>

lemma history_messages_length: "length (history_messages items) = length items"
  by (simp add: history_messages_def)

lemma history_messages_nth:
  "i < length items \<Longrightarrow>
   history_messages items ! i =
     \<lparr>role = (if even i then ''user'' else ''assistant''), content = items ! i\<rparr>"
  by (simp add: history_messages_def nth_enumerate_eq even_iff_mod_2_eq_zero)

lemma history_messages_no_system:
  "filter (\<lambda>m. role m = ''system'') (history_messages items) = []"
  by (auto simp: history_messages_def filter_empty_conv split: if_splits)

lemma build_messages_list:
  "build_messages rt p lang (PList hs) =
     Inr (system_message rt lang # history_messages hs @ [\<lparr>role = ''user'', content = p\<rparr>])"
  by (simp add: build_messages_def history_messages_def)

lemma build_messages_shape:
  "build_messages rt p lang h = Inr msgs \<Longrightarrow>
   \<exists>items. msgs = system_message rt lang # history_messages items @ [\<lparr>role = ''user'', content = p\<rparr>]"
proof (cases "py_truthy h")
  case True
  assume "build_messages rt p lang h = Inr msgs"
  with True show ?thesis by (auto simp: build_messages_def split: sum.splits)
next
  case False
  assume "build_messages rt p lang h = Inr msgs"
  with False have "msgs = system_message rt lang # history_messages [] @ [\<lparr>role = ''user'', content = p\<rparr>]"
    by (simp add: build_messages_def history_messages_def)
  then show ?thesis by blast
qed

lemma generate_calls_start:
  "build_messages rt p lang h = Inr msgs \<Longrightarrow> tokenizer s = Some tok \<Longrightarrow>
   \<exists>rest. snd (generate rt b s p lang h n temp) = ApplyChatTemplate tok msgs # rest"
  by (simp add: generate_def Let_def split: sum.splits option.splits)

text \<open>
  Claim C1. For a prompt \<open>p\<close>, any target language and a history list of \<open>n\<close>
  elements, the conversation has exactly \<open>n + 2\<close> messages: the system message at
  index 0; at index \<open>1 + i\<close> the \<open>i\<close>-th history element, verbatim, with role
  \<^verbatim>\<open>user\<close> for even \<open>i\<close> and \<^verbatim>\<open>assistant\<close> for odd \<open>i\<close>; and last the user message
  with content \<open>p\<close>. This list is what \<^verbatim>\<open>generate\<close> hands to the chat template.
\<close>

theorem conversation_layout:
  "\<exists>msgs. build_messages rt p lang (PList hs) = Inr msgs \<and>
     length msgs = length hs + 2 \<and>
     msgs ! 0 = system_message rt lang \<and>
     role (msgs ! 0) = ''system'' \<and>
     (\<forall>i<length hs.
        msgs ! (1 + i) = \<lparr>role = (if even i then ''user'' else ''assistant''), content = hs ! i\<rparr>) \<and>
     msgs ! (length hs + 1) = \<lparr>role = ''user'', content = p\<rparr> \<and>
     (\<forall>b s n temp tok. tokenizer s = Some tok \<longrightarrow>
        (\<exists>rest. snd (generate rt b s p lang (PList hs) n temp) = ApplyChatTemplate tok msgs # rest))"
proof -
  let ?msgs = "system_message rt lang # history_messages hs @ [\<lparr>role = ''user'', content = p\<rparr>]"
  have b: "build_messages rt p lang (PList hs) = Inr ?msgs" by (rule build_messages_list)
  have "length ?msgs = length hs + 2" by (simp add: history_messages_length)
  moreover have "?msgs ! 0 = system_message rt lang" by simp
  moreover have "role (?msgs ! 0) = ''system''" by (simp add: system_message_def)
  moreover have "\<forall>i<length hs.
      ?msgs ! (1 + i) = \<lparr>role = (if even i then ''user'' else ''assistant''), content = hs ! i\<rparr>"
    by (simp add: nth_append history_messages_length history_messages_nth)
  moreover have "?msgs ! (length hs + 1) = \<lparr>role = ''user'', content = p\<rparr>"
    by (simp add: nth_append history_messages_length)
  moreover have "\<forall>b s n temp tok. tokenizer s = Some tok \<longrightarrow>
      (\<exists>rest. snd (generate rt b s p lang (PList hs) n temp) = ApplyChatTemplate tok ?msgs # rest)"
    using generate_calls_start [OF b] by blast
  ultimately show ?thesis using b by blast
qed

theorem conversation_layout_witness:
  "\<exists>msgs. build_messages example_runtime (PStr ''Bien'') (PStr ''English'')
       (PList [PStr ''Hola'', PStr ''Hello'', PStr ''Que tal'']) = Inr msgs \<and>
     length msgs = 5 \<and>
     role (msgs ! 0) = ''system'' \<and>
     msgs ! 1 = \<lparr>role = ''user'', content = PStr ''Hola''\<rparr> \<and>
     msgs ! 2 = \<lparr>role = ''assistant'', content = PStr ''Hello''\<rparr> \<and>
     msgs ! 3 = \<lparr>role = ''user'', content = PStr ''Que tal''\<rparr> \<and>
     msgs ! 4 = \<lparr>role = ''user'', content = PStr ''Bien''\<rparr> \<and>
     (\<exists>rest. snd (generate example_runtime example_backend loaded_server (PStr ''Bien'')
         (PStr ''English'') (PList [PStr ''Hola'', PStr ''Hello'', PStr ''Que tal''])
         (PInt 128) default_temperature) = ApplyChatTemplate 1 msgs # rest)"
proof -
  let ?hs = "[PStr ''Hola'', PStr ''Hello'', PStr ''Que tal'']"
  from conversation_layout [of example_runtime "PStr ''Bien''" "PStr ''English''" ?hs]
  obtain msgs where
    b: "build_messages example_runtime (PStr ''Bien'') (PStr ''English'') (PList ?hs) = Inr msgs"
    and len: "length msgs = length ?hs + 2"
    and sys: "role (msgs ! 0) = ''system''"
    and hist: "\<forall>i<length ?hs.
        msgs ! (1 + i) = \<lparr>role = (if even i then ''user'' else ''assistant''), content = ?hs ! i\<rparr>"
    and fin: "msgs ! (length ?hs + 1) = \<lparr>role = ''user'', content = PStr ''Bien''\<rparr>"
    and gen: "\<forall>b s n temp tok. tokenizer s = Some tok \<longrightarrow>
        (\<exists>rest. snd (generate example_runtime b s (PStr ''Bien'') (PStr ''English'') (PList ?hs) n temp) =
           ApplyChatTemplate tok msgs # rest)"
    by blast
  have tok: "tokenizer loaded_server = Some 1" by (simp add: loaded_server_def)
  from hist have "msgs ! (1 + 0) = \<lparr>role = ''user'', content = PStr ''Hola''\<rparr>"
    and "msgs ! (1 + 1) = \<lparr>role = ''assistant'', content = PStr ''Hello''\<rparr>"
    and "msgs ! (1 + 2) = \<lparr>role = ''user'', content = PStr ''Que tal''\<rparr>"
    by force+
  moreover from gen tok have "\<exists>rest. snd (generate example_runtime example_backend loaded_server
      (PStr ''Bien'') (PStr ''English'') (PList ?hs) (PInt 128) default_temperature) =
      ApplyChatTemplate 1 msgs # rest" by blast
  ultimately show ?thesis using b len sys fin by (auto simp: eval_nat_numeral)
qed


lemma role_system_message: "role (system_message rt lang) = ''system''"
  by (simp add: system_message_def)

lemma build_messages_system:
  assumes "build_messages rt p lang h = Inr msgs"
  shows "msgs ! 0 = system_message rt lang \<and>
         filter (\<lambda>m. role m = ''system'') msgs = [system_message rt lang]"
proof -
  from build_messages_shape [OF assms] obtain items where
    "msgs = system_message rt lang # history_messages items @ [\<lparr>role = ''user'', content = p\<rparr>]"
    by blast
  then show ?thesis by (simp add: role_system_message history_messages_no_system)
qed

subsection \<open>What the backend is applied to\<close>

lemma generate_sampling_flag_only:
  "py_gt_zero temp = Inr ds \<Longrightarrow> \<forall>m t i k tp. g m t i k tp ds = model_generate b m t i k tp ds \<Longrightarrow>
   generate rt (b\<lparr>model_generate := g\<rparr>) s p lang h n temp = generate rt b s p lang h n temp"
  by (simp add: generate_def Let_def split: sum.splits option.splits)

lemma generate_no_model_call:
  "py_gt_zero temp = Inl e \<Longrightarrow>
   generate rt (b\<lparr>model_generate := g\<rparr>) s p lang h n temp = generate rt b s p lang h n temp"
  by (simp add: generate_def Let_def split: sum.splits option.splits)

lemma generate_at_model:
  assumes "build_messages rt p lang h = Inr msgs"
    and "tokenizer s = Some tok"
    and "apply_chat_template b tok msgs = Inr rendered"
    and "tokenizer_call b tok rendered = Inr enc"
    and "model s = Some mdl"
    and "inputs_to b enc mdl = Inr inputs"
    and "py_gt_zero temp = Inr ds"
  shows "generate rt b s p lang h n temp =
    (case model_generate b mdl tok inputs n temp ds of
       Inl e \<Rightarrow>
         (Inl e, [ApplyChatTemplate tok msgs, TokenizerCall tok rendered, InputsTo enc mdl,
                  ModelGenerate mdl tok inputs n temp ds])
     | Inr outputs \<Rightarrow>
         (case decode b tok outputs of
            Inl e \<Rightarrow>
              (Inl e, [ApplyChatTemplate tok msgs, TokenizerCall tok rendered, InputsTo enc mdl,
                       ModelGenerate mdl tok inputs n temp ds, Decode tok outputs])
          | Inr response \<Rightarrow>
              (Inr (extract_response response),
               [ApplyChatTemplate tok msgs, TokenizerCall tok rendered, InputsTo enc mdl,
                ModelGenerate mdl tok inputs n temp ds, Decode tok outputs])))"
  using assms by (simp add: generate_def Let_def split: sum.splits)

lemma generate_template_only_at:
  "build_messages rt p lang h = Inr msgs \<Longrightarrow> tokenizer s = Some tok \<Longrightarrow>
   f tok msgs = apply_chat_template b tok msgs \<Longrightarrow>
   generate rt (b\<lparr>apply_chat_template := f\<rparr>) s p lang h n temp = generate rt b s p lang h n temp"
  by (simp add: generate_def Let_def split: sum.splits option.splits)

lemma generate_template_failure:
  "build_messages rt p lang h = Inr msgs \<Longrightarrow> tokenizer s = Some tok \<Longrightarrow>
   apply_chat_template b tok msgs = Inl e \<Longrightarrow>
   generate rt b s p lang h n temp = (Inl e, [ApplyChatTemplate tok msgs])"
  by (simp add: generate_def)

lemma main_step_generate:
  assumes "py_strip raw \<noteq> []"
    and "json_loads rt (py_strip raw) = Inr (PDict request)"
    and "dict_get request ''command'' PNone = PStr ''generate''"
    and "model s \<noteq> None"
  shows "main_step rt b s raw =
    (case generate rt b s (dict_get request ''prompt'' (PStr []))
            (dict_get request ''target_lang'' PNone) (dict_get request ''history'' (PList []))
            (dict_get request ''max_tokens'' (PInt 128))
            (dict_get request ''temperature'' default_temperature) of
       (Inl e, cs) \<Rightarrow> report_exception s e cs
     | (Inr text, cs) \<Rightarrow>
         respond s (PDict [(''text'', PStr text), (''status'', PStr ''success'')]) cs)"
  using assms by (simp add: main_step_dict dispatch_generate)

lemma calls_report_exception: "calls (report_exception s e cs) = cs"
  by (cases e) (simp add: report_exception_def respond_def)

lemma system_message_request:
  assumes "py_strip raw \<noteq> []"
    and "json_loads rt (py_strip raw) = Inr (PDict request)"
    and "dict_get request ''command'' PNone = PStr ''generate''"
    and "model s \<noteq> None"
    and "tokenizer s = Some tok"
    and "dict_get request ''prompt'' (PStr []) = p"
    and "dict_get request ''history'' (PList []) = PList hs"
  shows "\<exists>msgs.
     build_messages rt p (dict_get request ''target_lang'' PNone) (PList hs) = Inr msgs \<and>
     (\<forall>l. l \<noteq> [] \<and> map_of request ''target_lang'' = Some (PStr l) \<longrightarrow>
        msgs ! 0 =
          \<lparr>role = ''system'',
           content = PStr (''You are a helpful assistant that translates text to '' @ l @
                           ''. Continue the conversation without explanation.'')\<rparr>) \<and>
     (map_of request ''target_lang'' = None \<or> map_of request ''target_lang'' = Some PNone \<or>
      map_of request ''target_lang'' = Some (PStr []) \<longrightarrow>
        msgs ! 0 =
          \<lparr>role = ''system'',
           content = PStr ''You are Qwen, created by Alibaba Cloud. You are a helpful assistant.''\<rparr>) \<and>
     (\<forall>v. map_of request ''target_lang'' = Some v \<and> py_truthy v \<longrightarrow>
        msgs ! 0 =
          \<lparr>role = ''system'',
           content = PStr (''You are a helpful assistant that translates text to '' @
                           py_format rt v @
                           ''. Continue the conversation without explanation.'')\<rparr>) \<and>
     (\<forall>v. map_of request ''target_lang'' = Some v \<and> \<not> py_truthy v \<longrightarrow>
        msgs ! 0 =
          \<lparr>role = ''system'',
           content = PStr ''You are Qwen, created by Alibaba Cloud. You are a helpful assistant.''\<rparr>) \<and>
     role (msgs ! 0) = ''system'' \<and>
     filter (\<lambda>m. role m = ''system'') msgs = [msgs ! 0] \<and>
     (\<exists>rest. calls (main_step rt b s raw) = ApplyChatTemplate tok msgs # rest) \<and>
     (\<forall>e. apply_chat_template b tok msgs = Inl e \<longrightarrow>
        main_step rt b s raw = report_exception s e [ApplyChatTemplate tok msgs]) \<and>
     (\<forall>f. f tok msgs = apply_chat_template b tok msgs \<longrightarrow>
        main_step rt (b\<lparr>apply_chat_template := f\<rparr>) s raw = main_step rt b s raw)"
proof -
  let ?lang = "dict_get request ''target_lang'' PNone"
  let ?msgs = "system_message rt ?lang # history_messages hs @ [\<lparr>role = ''user'', content = p\<rparr>]"
  let ?n = "dict_get request ''max_tokens'' (PInt 128)"
  let ?temp = "dict_get request ''temperature'' default_temperature"
  have b: "build_messages rt p ?lang (PList hs) = Inr ?msgs" by (rule build_messages_list)
  have step: "\<And>b'. main_step rt b' s raw =
      (case generate rt b' s p ?lang (PList hs) ?n ?temp of
         (Inl e, cs) \<Rightarrow> report_exception s e cs
       | (Inr text, cs) \<Rightarrow>
           respond s (PDict [(''text'', PStr text), (''status'', PStr ''success'')]) cs)"
    using main_step_generate [OF assms(1,2,3,4)] assms(6,7) by simp
  have cs: "calls (main_step rt b s raw) = snd (generate rt b s p ?lang (PList hs) ?n ?temp)"
    unfolding step
    by (cases "generate rt b s p ?lang (PList hs) ?n ?temp")
      (auto simp: calls_report_exception respond_def split: sum.splits)
  have first: "?msgs ! 0 = system_message rt ?lang" by simp
  have "\<forall>l. l \<noteq> [] \<and> map_of request ''target_lang'' = Some (PStr l) \<longrightarrow>
        ?msgs ! 0 =
          \<lparr>role = ''system'',
           content = PStr (''You are a helpful assistant that translates text to '' @ l @
                           ''. Continue the conversation without explanation.'')\<rparr>"
    by (auto simp: dict_get_def system_message_def)
  moreover have "map_of request ''target_lang'' = None \<or> map_of request ''target_lang'' = Some PNone \<or>
      map_of request ''target_lang'' = Some (PStr []) \<longrightarrow>
        ?msgs ! 0 =
          \<lparr>role = ''system'',
           content = PStr ''You are Qwen, created by Alibaba Cloud. You are a helpful assistant.''\<rparr>"
    by (auto simp: dict_get_def system_message_def)
  moreover have "\<forall>v. map_of request ''target_lang'' = Some v \<and> py_truthy v \<longrightarrow>
        ?msgs ! 0 =
          \<lparr>role = ''system'',
           content = PStr (''You are a helpful assistant that translates text to '' @
                           py_format rt v @
                           ''. Continue the conversation without explanation.'')\<rparr>"
    by (auto simp: dict_get_def system_message_def)
  moreover have "\<forall>v. map_of request ''target_lang'' = Some v \<and> \<not> py_truthy v \<longrightarrow>
        ?msgs ! 0 =
          \<lparr>role = ''system'',
           content = PStr ''You are Qwen, created by Alibaba Cloud. You are a helpful assistant.''\<rparr>"
    by (auto simp: dict_get_def system_message_def)
  moreover have "role (?msgs ! 0) = ''system''" by (simp add: role_system_message)
  moreover have "filter (\<lambda>m. role m = ''system'') ?msgs = [?msgs ! 0]"
    by (simp add: role_system_message history_messages_no_system)
  moreover have "\<exists>rest. calls (main_step rt b s raw) = ApplyChatTemplate tok ?msgs # rest"
    using generate_calls_start [OF b assms(5)] cs by simp
  moreover have "\<forall>e. apply_chat_template b tok ?msgs = Inl e \<longrightarrow>
        main_step rt b s raw = report_exception s e [ApplyChatTemplate tok ?msgs]"
    using generate_template_failure [OF b assms(5)] by (simp add: step)
  moreover have "\<forall>f. f tok ?msgs = apply_chat_template b tok ?msgs \<longrightarrow>
        main_step rt (b\<lparr>apply_chat_template := f\<rparr>) s raw = main_step rt b s raw"
    using generate_template_only_at [OF b assms(5)] by (simp add: step)
  ultimately show ?thesis using b by blast
qed


text \<open>
  Claim C8. For a \<^verbatim>\<open>generate\<close> command whose history is a list (or absent), the
  conversation is built, and its system message is the translation message for the
  target language when the request carries a non-empty string as \<^verbatim>\<open>target_lang\<close>, and
  the fixed default persona when \<^verbatim>\<open>target_lang\<close> is absent, \<^verbatim>\<open>null\<close> or the empty string
  (for a value of any other type Python's truth value decides). It is the only message
  with role \<^verbatim>\<open>system\<close> and stands at position 0. This conversation is what the chat
  template of the backend is applied to: the command consults the template at this
  conversation only, and an exception of the template there ends the command.
\<close>

theorem system_message_choice:
  assumes "py_strip raw \<noteq> []"
    and "json_loads rt (py_strip raw) = Inr (PDict request)"
    and "map_of request ''command'' = Some (PStr ''generate'')"
    and "model s \<noteq> None"
    and "tokenizer s = Some tok"
    and "map_of request ''history'' = Some (PList hs) \<or>
         map_of request ''history'' = None \<and> hs = []"
  shows "\<exists>msgs.
     build_messages rt (case map_of request ''prompt'' of None \<Rightarrow> PStr [] | Some v \<Rightarrow> v)
       (case map_of request ''target_lang'' of None \<Rightarrow> PNone | Some v \<Rightarrow> v) (PList hs) =
       Inr msgs \<and>
     (\<forall>l. l \<noteq> [] \<and> map_of request ''target_lang'' = Some (PStr l) \<longrightarrow>
        msgs ! 0 =
          \<lparr>role = ''system'',
           content = PStr (''You are a helpful assistant that translates text to '' @ l @
                           ''. Continue the conversation without explanation.'')\<rparr>) \<and>
     (map_of request ''target_lang'' = None \<or> map_of request ''target_lang'' = Some PNone \<or>
      map_of request ''target_lang'' = Some (PStr []) \<longrightarrow>
        msgs ! 0 =
          \<lparr>role = ''system'',
           content = PStr ''You are Qwen, created by Alibaba Cloud. You are a helpful assistant.''\<rparr>) \<and>
     (\<forall>v. map_of request ''target_lang'' = Some v \<and> py_truthy v \<longrightarrow>
        msgs ! 0 =
          \<lparr>role = ''system'',
           content = PStr (''You are a helpful assistant that translates text to '' @
                           py_format rt v @
                           ''. Continue the conversation without explanation.'')\<rparr>) \<and>
     (\<forall>v. map_of request ''target_lang'' = Some v \<and> \<not> py_truthy v \<longrightarrow>
        msgs ! 0 =
          \<lparr>role = ''system'',
           content = PStr ''You are Qwen, created by Alibaba Cloud. You are a helpful assistant.''\<rparr>) \<and>
     role (msgs ! 0) = ''system'' \<and>
     filter (\<lambda>m. role m = ''system'') msgs = [msgs ! 0] \<and>
     (\<exists>rest. calls (main_step rt b s raw) = ApplyChatTemplate tok msgs # rest) \<and>
     (\<forall>e. apply_chat_template b tok msgs = Inl e \<longrightarrow>
        main_step rt b s raw = report_exception s e [ApplyChatTemplate tok msgs]) \<and>
     (\<forall>f. f tok msgs = apply_chat_template b tok msgs \<longrightarrow>
        main_step rt (b\<lparr>apply_chat_template := f\<rparr>) s raw = main_step rt b s raw)"
proof -
  have c: "dict_get request ''command'' PNone = PStr ''generate''"
    using assms(3) by (simp add: dict_get_def)
  have h: "dict_get request ''history'' (PList []) = PList hs"
    using assms(6) by (auto simp: dict_get_def)
  from system_message_request [OF assms(1,2) c assms(4,5) refl h, of b]
  show ?thesis unfolding dict_get_def .
qed

theorem system_message_choice_witness:
  "(\<exists>msgs rest.
      calls (main_step example_runtime example_backend loaded_server
        ''{\"command\":\"generate\",\"prompt\":\"Hi\",\"target_lang\":\"French\",\"history\":[\"Salut\",\"Hello\"]}\<newline>'') =
        ApplyChatTemplate 1 msgs # rest \<and>
      msgs =
        [\<lparr>role = ''system'',
          content = PStr ''You are a helpful assistant that translates text to French. Continue the conversation without explanation.''\<rparr>,
         \<lparr>role = ''user'', content = PStr ''Salut''\<rparr>,
         \<lparr>role = ''assistant'', content = PStr ''Hello''\<rparr>,
         \<lparr>role = ''user'', content = PStr ''Hi''\<rparr>] \<and>
      filter (\<lambda>m. role m = ''system'') msgs = [msgs ! 0]) \<and>
   (\<exists>msgs rest.
      calls (main_step example_runtime example_backend loaded_server
        ''{\"command\":\"generate\",\"prompt\":\"Hi\"}\<newline>'') = ApplyChatTemplate 1 msgs # rest \<and>
      msgs ! 0 =
        \<lparr>role = ''system'',
         content = PStr ''You are Qwen, created by Alibaba Cloud. You are a helpful assistant.''\<rparr> \<and>
      filter (\<lambda>m. role m = ''system'') msgs = [msgs ! 0])"
proof -
  let ?raw = "''{\"command\":\"generate\",\"prompt\":\"Hi\",\"target_lang\":\"French\",\"history\":[\"Salut\",\"Hello\"]}\<newline>''"
  let ?req = "[(''command'', PStr ''generate''), (''prompt'', PStr ''Hi''),
                (''target_lang'', PStr ''French''),
                (''history'', PList [PStr ''Salut'', PStr ''Hello''])]"
  let ?raw1 = "''{\"command\":\"generate\",\"prompt\":\"Hi\"}\<newline>''"
  let ?req1 = "[(''command'', PStr ''generate''), (''prompt'', PStr ''Hi'')]"
  have m: "model loaded_server \<noteq> None" and tk: "tokenizer loaded_server = Some 1"
    by (simp_all add: loaded_server_def)
  have a1: "py_strip ?raw \<noteq> []" by (simp add: py_strip_def py_isspace_def)
  have a2: "json_loads example_runtime (py_strip ?raw) = Inr (PDict ?req)"
    by (simp add: example_simps)
  have a3: "map_of ?req ''command'' = Some (PStr ''generate'')" by simp
  have a7: "map_of ?req ''history'' = Some (PList [PStr ''Salut'', PStr ''Hello'']) \<or>
      map_of ?req ''history'' = None \<and> [PStr ''Salut'', PStr ''Hello''] = []"
    by simp
  have l: "''French'' \<noteq> [] \<and> map_of ?req ''target_lang'' = Some (PStr ''French'')" by simp
  have bld: "build_messages example_runtime
      (case map_of ?req ''prompt'' of None \<Rightarrow> PStr [] | Some v \<Rightarrow> v)
      (case map_of ?req ''target_lang'' of None \<Rightarrow> PNone | Some v \<Rightarrow> v)
      (PList [PStr ''Salut'', PStr ''Hello'']) =
      Inr [system_message example_runtime (PStr ''French''),
           \<lparr>role = ''user'', content = PStr ''Salut''\<rparr>,
           \<lparr>role = ''assistant'', content = PStr ''Hello''\<rparr>,
           \<lparr>role = ''user'', content = PStr ''Hi''\<rparr>]"
    by (simp add: build_messages_def history_messages_def)
  from system_message_choice [OF a1 a2 a3 m tk a7, of example_backend]
  obtain msgs where b: "build_messages example_runtime
        (case map_of ?req ''prompt'' of None \<Rightarrow> PStr [] | Some v \<Rightarrow> v)
        (case map_of ?req ''target_lang'' of None \<Rightarrow> PNone | Some v \<Rightarrow> v)
        (PList [PStr ''Salut'', PStr ''Hello'']) = Inr msgs"
    and tr: "\<forall>l. l \<noteq> [] \<and> map_of ?req ''target_lang'' = Some (PStr l) \<longrightarrow>
        msgs ! 0 =
          \<lparr>role = ''system'',
           content = PStr (''You are a helpful assistant that translates text to '' @ l @
                           ''. Continue the conversation without explanation.'')\<rparr>"
    and flt: "filter (\<lambda>m. role m = ''system'') msgs = [msgs ! 0]"
    and c: "\<exists>rest. calls (main_step example_runtime example_backend loaded_server ?raw) =
        ApplyChatTemplate 1 msgs # rest"
    by blast
  from tr l have first: "msgs ! 0 =
      \<lparr>role = ''system'',
       content = PStr (''You are a helpful assistant that translates text to '' @ ''French'' @
                       ''. Continue the conversation without explanation.'')\<rparr>" by blast
  from b bld have shape: "msgs = [system_message example_runtime (PStr ''French''),
           \<lparr>role = ''user'', content = PStr ''Salut''\<rparr>,
           \<lparr>role = ''assistant'', content = PStr ''Hello''\<rparr>,
           \<lparr>role = ''user'', content = PStr ''Hi''\<rparr>]" by simp
  then have "msgs ! 0 = system_message example_runtime (PStr ''French'')" by simp
  with first shape have lit: "msgs =
        [\<lparr>role = ''system'',
          content = PStr ''You are a helpful assistant that translates text to French. Continue the conversation without explanation.''\<rparr>,
         \<lparr>role = ''user'', content = PStr ''Salut''\<rparr>,
         \<lparr>role = ''assistant'', content = PStr ''Hello''\<rparr>,
         \<lparr>role = ''user'', content = PStr ''Hi''\<rparr>]" by simp
  from c lit flt have one: "\<exists>msgs rest.
      calls (main_step example_runtime example_backend loaded_server ?raw) =
        ApplyChatTemplate 1 msgs # rest \<and>
      msgs =
        [\<lparr>role = ''system'',
          content = PStr ''You are a helpful assistant that translates text to French. Continue the conversation without explanation.''\<rparr>,
         \<lparr>role = ''user'', content = PStr ''Salut''\<rparr>,
         \<lparr>role = ''assistant'', content = PStr ''Hello''\<rparr>,
         \<lparr>role = ''user'', content = PStr ''Hi''\<rparr>] \<and>
      filter (\<lambda>m. role m = ''system'') msgs = [msgs ! 0]" by blast
  have b1: "py_strip ?raw1 \<noteq> []" by (simp add: py_strip_def py_isspace_def)
  have b2: "json_loads example_runtime (py_strip ?raw1) = Inr (PDict ?req1)"
    by (simp add: example_simps)
  have b3: "map_of ?req1 ''command'' = Some (PStr ''generate'')" by simp
  have b7: "map_of ?req1 ''history'' = Some (PList []) \<or>
      map_of ?req1 ''history'' = None \<and> ([] :: pyval list) = []"
    by simp
  have absent: "map_of ?req1 ''target_lang'' = None" by simp
  from system_message_choice [OF b1 b2 b3 m tk b7, of example_backend]
  obtain msgs1 where
    df: "map_of ?req1 ''target_lang'' = None \<or> map_of ?req1 ''target_lang'' = Some PNone \<or>
      map_of ?req1 ''target_lang'' = Some (PStr []) \<longrightarrow>
        msgs1 ! 0 =
          \<lparr>role = ''system'',
           content = PStr ''You are Qwen, created by Alibaba Cloud. You are a helpful assistant.''\<rparr>"
    and flt1: "filter (\<lambda>m. role m = ''system'') msgs1 = [msgs1 ! 0]"
    and c1: "\<exists>rest. calls (main_step example_runtime example_backend loaded_server ?raw1) =
        ApplyChatTemplate 1 msgs1 # rest"
    by blast
  from df absent have "msgs1 ! 0 =
          \<lparr>role = ''system'',
           content = PStr ''You are Qwen, created by Alibaba Cloud. You are a helpful assistant.''\<rparr>"
    by blast
  with flt1 c1 have two: "\<exists>msgs rest.
      calls (main_step example_runtime example_backend loaded_server ?raw1) =
        ApplyChatTemplate 1 msgs # rest \<and>
      msgs ! 0 =
        \<lparr>role = ''system'',
         content = PStr ''You are Qwen, created by Alibaba Cloud. You are a helpful assistant.''\<rparr> \<and>
      filter (\<lambda>m. role m = ''system'') msgs = [msgs ! 0]" by blast
  from one two show ?thesis by blast
qed

lemma sampling_requests_generate:
  "sampling_requests (snd (generate rt b s p lang h n temp)) = [] \<or>
   (\<exists>ds. py_gt_zero temp = Inr ds \<and>
      sampling_requests (snd (generate rt b s p lang h n temp)) = [(temp, ds)])"
  by (simp add: generate_def Let_def split: sum.splits option.splits)

lemma generate_reaches_model:
  assumes "build_messages rt p lang h = Inr msgs"
    and "tokenizer s = Some tok"
    and "apply_chat_template b tok msgs = Inr rendered"
    and "tokenizer_call b tok rendered = Inr enc"
    and "model s = Some mdl"
    and "inputs_to b enc mdl = Inr inputs"
    and "py_gt_zero temp = Inr ds"
  shows "sampling_requests (snd (generate rt b s p lang h n temp)) = [(temp, ds)] \<and>
         ModelGenerate mdl tok inputs n temp ds \<in> set (snd (generate rt b s p lang h n temp))"
  using assms by (simp add: generate_def Let_def split: sum.splits option.splits)

lemma sampling_flag_request:
  assumes "py_strip raw \<noteq> []"
    and "json_loads rt (py_strip raw) = Inr (PDict request)"
    and "dict_get request ''command'' PNone = PStr ''generate''"
    and "model s = Some mdl"
    and "dict_get request ''prompt'' (PStr []) = p"
    and "dict_get request ''target_lang'' PNone = lang"
    and "dict_get request ''history'' (PList []) = h"
    and "dict_get request ''max_tokens'' (PInt 128) = n"
    and "dict_get request ''temperature'' default_temperature = temp"
  shows "(\<forall>ds g. py_gt_zero temp = Inr ds \<and>
            (\<forall>m t i k tp. g m t i k tp ds = model_generate b m t i k tp ds) \<longrightarrow>
            main_step rt (b\<lparr>model_generate := g\<rparr>) s raw = main_step rt b s raw) \<and>
         (\<forall>e g. py_gt_zero temp = Inl e \<longrightarrow>
            main_step rt (b\<lparr>model_generate := g\<rparr>) s raw = main_step rt b s raw) \<and>
         (\<forall>msgs tok rendered enc inputs ds.
            build_messages rt p lang h = Inr msgs \<and> tokenizer s = Some tok \<and>
            apply_chat_template b tok msgs = Inr rendered \<and>
            tokenizer_call b tok rendered = Inr enc \<and> inputs_to b enc mdl = Inr inputs \<and>
            py_gt_zero temp = Inr ds \<longrightarrow>
            main_step rt b s raw =
              (case model_generate b mdl tok inputs n temp ds of
                 Inl e \<Rightarrow>
                   report_exception s e
                     [ApplyChatTemplate tok msgs, TokenizerCall tok rendered, InputsTo enc mdl,
                      ModelGenerate mdl tok inputs n temp ds]
               | Inr outputs \<Rightarrow>
                   (case decode b tok outputs of
                      Inl e \<Rightarrow>
                        report_exception s e
                          [ApplyChatTemplate tok msgs, TokenizerCall tok rendered,
                           InputsTo enc mdl, ModelGenerate mdl tok inputs n temp ds,
                           Decode tok outputs]
                    | Inr response \<Rightarrow>
                        respond s
                          (PDict [(''text'', PStr (extract_response response)),
                                  (''status'', PStr ''success'')])
                          [ApplyChatTemplate tok msgs, TokenizerCall tok rendered,
                           InputsTo enc mdl, ModelGenerate mdl tok inputs n temp ds,
                           Decode tok outputs]))) \<and>
         (\<forall>t ds. (t, ds) \<in> set (sampling_requests (calls (main_step rt b s raw))) \<longrightarrow>
            t = temp \<and> py_gt_zero temp = Inr ds) \<and>
         length (sampling_requests (calls (main_step rt b s raw))) \<le> 1 \<and>
         (\<forall>k. temp = PInt k \<longrightarrow> py_gt_zero temp = Inr (0 < k)) \<and>
         (\<forall>m e. temp = PFloat (Finite m e) \<longrightarrow> py_gt_zero temp = Inr (0 < m)) \<and>
         (map_of request ''temperature'' = None \<longrightarrow> py_gt_zero temp = Inr True)"
proof -
  have ne: "model s \<noteq> None" using assms(4) by simp
  have step: "\<And>b'. main_step rt b' s raw =
      (case generate rt b' s p lang h n temp of
         (Inl e, cs) \<Rightarrow> report_exception s e cs
       | (Inr text, cs) \<Rightarrow>
           respond s (PDict [(''text'', PStr text), (''status'', PStr ''success'')]) cs)"
    using main_step_generate [OF assms(1,2,3) ne] assms(5-9) by simp
  have cs: "calls (main_step rt b s raw) = snd (generate rt b s p lang h n temp)"
    unfolding step
    by (cases "generate rt b s p lang h n temp")
      (auto simp: calls_report_exception respond_def split: sum.splits)
  show ?thesis
  proof (intro conjI allI impI)
    fix ds g
    assume "py_gt_zero temp = Inr ds \<and>
      (\<forall>m t i k tp. g m t i k tp ds = model_generate b m t i k tp ds)"
    then have "generate rt (b\<lparr>model_generate := g\<rparr>) s p lang h n temp =
        generate rt b s p lang h n temp"
      by (intro generate_sampling_flag_only) auto
    then show "main_step rt (b\<lparr>model_generate := g\<rparr>) s raw = main_step rt b s raw"
      by (simp add: step)
  next
    fix e g
    assume "py_gt_zero temp = Inl e"
    then have "generate rt (b\<lparr>model_generate := g\<rparr>) s p lang h n temp =
        generate rt b s p lang h n temp"
      by (rule generate_no_model_call)
    then show "main_step rt (b\<lparr>model_generate := g\<rparr>) s raw = main_step rt b s raw"
      by (simp add: step)
  next
    fix msgs tok rendered enc inputs ds
    assume a: "build_messages rt p lang h = Inr msgs \<and> tokenizer s = Some tok \<and>
            apply_chat_template b tok msgs = Inr rendered \<and>
            tokenizer_call b tok rendered = Inr enc \<and> inputs_to b enc mdl = Inr inputs \<and>
            py_gt_zero temp = Inr ds"
    then have "generate rt b s p lang h n temp =
      (case model_generate b mdl tok inputs n temp ds of
         Inl e \<Rightarrow>
           (Inl e, [ApplyChatTemplate tok msgs, TokenizerCall tok rendered, InputsTo enc mdl,
                    ModelGenerate mdl tok inputs n temp ds])
       | Inr outputs \<Rightarrow>
           (case decode b tok outputs of
              Inl e \<Rightarrow>
                (Inl e, [ApplyChatTemplate tok msgs, TokenizerCall tok rendered, InputsTo enc mdl,
                         ModelGenerate mdl tok inputs n temp ds, Decode tok outputs])
            | Inr response \<Rightarrow>
                (Inr (extract_response response),
                 [ApplyChatTemplate tok msgs, TokenizerCall tok rendered, InputsTo enc mdl,
                  ModelGenerate mdl tok inputs n temp ds, Decode tok outputs])))"
      using assms(4) by (intro generate_at_model) auto
    then show "main_step rt b s raw =
              (case model_generate b mdl tok inputs n temp ds of
                 Inl e \<Rightarrow>
                   report_exception s e
                     [ApplyChatTemplate tok msgs, TokenizerCall tok rendered, InputsTo enc mdl,
                      ModelGenerate mdl tok inputs n temp ds]
               | Inr outputs \<Rightarrow>
                   (case decode b tok outputs of
                      Inl e \<Rightarrow>
                        report_exception s e
                          [ApplyChatTemplate tok msgs, TokenizerCall tok rendered,
                           InputsTo enc mdl, ModelGenerate mdl tok inputs n temp ds,
                           Decode tok outputs]
                    | Inr response \<Rightarrow>
                        respond s
                          (PDict [(''text'', PStr (extract_response response)),
                                  (''status'', PStr ''success'')])
                          [ApplyChatTemplate tok msgs, TokenizerCall tok rendered,
                           InputsTo enc mdl, ModelGenerate mdl tok inputs n temp ds,
                           Decode tok outputs]))"
      by (simp add: step split: sum.splits)
  next
    fix t ds
    assume "(t, ds) \<in> set (sampling_requests (calls (main_step rt b s raw)))"
    with sampling_requests_generate [of rt b s p lang h n temp] cs
    show "t = temp" and "py_gt_zero temp = Inr ds" by auto
  next
    show "length (sampling_requests (calls (main_step rt b s raw))) \<le> 1"
      using sampling_requests_generate [of rt b s p lang h n temp] cs by auto
  next
    fix k assume "temp = PInt k"
    then show "py_gt_zero temp = Inr (0 < k)" by simp
  next
    fix m e assume "temp = PFloat (Finite m e)"
    then show "py_gt_zero temp = Inr (0 < m)" by simp
  next
    assume "map_of request ''temperature'' = None"
    with assms(9) show "py_gt_zero temp = Inr True"
      by (auto simp: dict_get_def default_temperature_def)
  qed
qed

text \<open>
  Claim C9. A \<^verbatim>\<open>generate\<close> command calls \<^verbatim>\<open>self.model.generate\<close> with the temperature of
  the request and with \<^verbatim>\<open>do_sample\<close> equal to \<^verbatim>\<open>temperature > 0\<close>: sampling for a
  temperature above zero, deterministic generation for zero and below (a finite float
  \<open>m * 2 ^ e\<close> is positive exactly when \<open>m\<close> is; the default temperature is). What
  the command answers depends on the model only through its behaviour at that value of
  the flag; when the stages before the call succeed, the answer is made from what the
  model returns there; and a temperature that cannot be compared with zero raises
  before the model is called at all.
\<close>

theorem sampling_iff_positive_temperature:
  assumes "py_strip raw \<noteq> []"
    and "json_loads rt (py_strip raw) = Inr (PDict request)"
    and "map_of request ''command'' = Some (PStr ''generate'')"
    and "model s = Some mdl"
    and "dict_get request ''prompt'' (PStr []) = p"
    and "dict_get request ''target_lang'' PNone = lang"
    and "dict_get request ''history'' (PList []) = h"
    and "dict_get request ''max_tokens'' (PInt 128) = n"
    and "map_of request ''temperature'' = Some temp \<or>
         map_of request ''temperature'' = None \<and> temp = default_temperature"
  shows "(\<forall>ds g. py_gt_zero temp = Inr ds \<and>
            (\<forall>m t i k tp. g m t i k tp ds = model_generate b m t i k tp ds) \<longrightarrow>
            main_step rt (b\<lparr>model_generate := g\<rparr>) s raw = main_step rt b s raw) \<and>
         (\<forall>e g. py_gt_zero temp = Inl e \<longrightarrow>
            main_step rt (b\<lparr>model_generate := g\<rparr>) s raw = main_step rt b s raw) \<and>
         (\<forall>msgs tok rendered enc inputs ds.
            build_messages rt p lang h = Inr msgs \<and> tokenizer s = Some tok \<and>
            apply_chat_template b tok msgs = Inr rendered \<and>
            tokenizer_call b tok rendered = Inr enc \<and> inputs_to b enc mdl = Inr inputs \<and>
            py_gt_zero temp = Inr ds \<longrightarrow>
            main_step rt b s raw =
              (case model_generate b mdl tok inputs n temp ds of
                 Inl e \<Rightarrow>
                   report_exception s e
                     [ApplyChatTemplate tok msgs, TokenizerCall tok rendered, InputsTo enc mdl,
                      ModelGenerate mdl tok inputs n temp ds]
               | Inr outputs \<Rightarrow>
                   (case decode b tok outputs of
                      Inl e \<Rightarrow>
                        report_exception s e
                          [ApplyChatTemplate tok msgs, TokenizerCall tok rendered,
                           InputsTo enc mdl, ModelGenerate mdl tok inputs n temp ds,
                           Decode tok outputs]
                    | Inr response \<Rightarrow>
                        respond s
                          (PDict [(''text'', PStr (extract_response response)),
                                  (''status'', PStr ''success'')])
                          [ApplyChatTemplate tok msgs, TokenizerCall tok rendered,
                           InputsTo enc mdl, ModelGenerate mdl tok inputs n temp ds,
                           Decode tok outputs]))) \<and>
         (\<forall>t ds. (t, ds) \<in> set (sampling_requests (calls (main_step rt b s raw))) \<longrightarrow>
            t = temp \<and> py_gt_zero temp = Inr ds) \<and>
         length (sampling_requests (calls (main_step rt b s raw))) \<le> 1 \<and>
         (\<forall>v. temp = PBool v \<longrightarrow> py_gt_zero temp = Inr v) \<and>
         (temp = PFloat PosInf \<longrightarrow> py_gt_zero temp = Inr True) \<and>
         (temp = PFloat NegInf \<or> temp = PFloat NaN \<longrightarrow> py_gt_zero temp = Inr False) \<and>
         (\<forall>k. temp = PInt k \<longrightarrow> py_gt_zero temp = Inr (0 < k)) \<and>
         (\<forall>m e. temp = PFloat (Finite m e) \<longrightarrow> py_gt_zero temp = Inr (0 < m)) \<and>
         (map_of request ''temperature'' = None \<longrightarrow> py_gt_zero temp = Inr True)"
proof -
  have c: "dict_get request ''command'' PNone = PStr ''generate''"
    using assms(3) by (simp add: dict_get_def)
  have t: "dict_get request ''temperature'' default_temperature = temp"
    using assms(9) by (auto simp: dict_get_def)
  note r = sampling_flag_request [OF assms(1,2) c assms(4-8) t, of b]
  have "(\<forall>v. temp = PBool v \<longrightarrow> py_gt_zero temp = Inr v) \<and>
         (temp = PFloat PosInf \<longrightarrow> py_gt_zero temp = Inr True) \<and>
         (temp = PFloat NegInf \<or> temp = PFloat NaN \<longrightarrow> py_gt_zero temp = Inr False)"
    by auto
  with r show ?thesis by blast
qed

theorem sampling_iff_positive_temperature_witness:
  "main_step example_runtime flag_backend loaded_server
     ''{\"command\":\"generate\",\"prompt\":\"Hi\",\"temperature\":0}\<newline>'' =
     \<lparr>state = loaded_server,
      emitted = [PDict [(''text'', PStr ''greedy''), (''status'', PStr ''success'')]],
      continue = True,
      calls = [ApplyChatTemplate 1
                 [\<lparr>role = ''system'',
                   content = PStr ''You are Qwen, created by Alibaba Cloud. You are a helpful assistant.''\<rparr>,
                  \<lparr>role = ''user'', content = PStr ''Hi''\<rparr>],
               TokenizerCall 1 ''<transcript>'', InputsTo [1, 2, 3] 2,
               ModelGenerate 2 1 [1, 2, 3] (PInt 128) (PInt 0) False,
               Decode 1 [1, 2, 3, 0]]\<rparr> \<and>
   main_step example_runtime flag_backend loaded_server
     ''{\"command\":\"generate\",\"prompt\":\"Hi\"}\<newline>'' =
     \<lparr>state = loaded_server,
      emitted = [PDict [(''text'', PStr ''sampled''), (''status'', PStr ''success'')]],
      continue = True,
      calls = [ApplyChatTemplate 1
                 [\<lparr>role = ''system'',
                   content = PStr ''You are Qwen, created by Alibaba Cloud. You are a helpful assistant.''\<rparr>,
                  \<lparr>role = ''user'', content = PStr ''Hi''\<rparr>],
               TokenizerCall 1 ''<transcript>'', InputsTo [1, 2, 3] 2,
               ModelGenerate 2 1 [1, 2, 3] (PInt 128) default_temperature True,
               Decode 1 [1, 2, 3, 1]]\<rparr>"
proof -
  let ?raw0 = "''{\"command\":\"generate\",\"prompt\":\"Hi\",\"temperature\":0}\<newline>''"
  let ?req0 = "[(''command'', PStr ''generate''), (''prompt'', PStr ''Hi''),
                (''temperature'', PInt 0)]"
  let ?raw1 = "''{\"command\":\"generate\",\"prompt\":\"Hi\"}\<newline>''"
  let ?req1 = "[(''command'', PStr ''generate''), (''prompt'', PStr ''Hi'')]"
  let ?msgs = "[\<lparr>role = ''system'',
                   content = PStr ''You are Qwen, created by Alibaba Cloud. You are a helpful assistant.''\<rparr>,
                  \<lparr>role = ''user'', content = PStr ''Hi''\<rparr>]"
  have a1: "py_strip ?raw0 \<noteq> []" by (simp add: py_strip_def py_isspace_def)
  have a2: "json_loads example_runtime (py_strip ?raw0) = Inr (PDict ?req0)"
    by (simp add: example_simps)
  have a3: "map_of ?req0 ''command'' = Some (PStr ''generate'')" by simp
  have m: "model loaded_server = Some 2" by (simp add: loaded_server_def)
  have a5: "dict_get ?req0 ''prompt'' (PStr []) = PStr ''Hi''" by (simp add: dict_get_def)
  have a6: "dict_get ?req0 ''target_lang'' PNone = PNone" by (simp add: dict_get_def)
  have a7: "dict_get ?req0 ''history'' (PList []) = PList []" by (simp add: dict_get_def)
  have a8: "dict_get ?req0 ''max_tokens'' (PInt 128) = PInt 128" by (simp add: dict_get_def)
  have a9: "map_of ?req0 ''temperature'' = Some (PInt 0) \<or>
      map_of ?req0 ''temperature'' = None \<and> PInt 0 = default_temperature"
    by simp
  have b1: "py_strip ?raw1 \<noteq> []" by (simp add: py_strip_def py_isspace_def)
  have b2: "json_loads example_runtime (py_strip ?raw1) = Inr (PDict ?req1)"
    by (simp add: example_simps)
  have b3: "map_of ?req1 ''command'' = Some (PStr ''generate'')" by simp
  have b5: "dict_get ?req1 ''prompt'' (PStr []) = PStr ''Hi''" by (simp add: dict_get_def)
  have b6: "dict_get ?req1 ''target_lang'' PNone = PNone" by (simp add: dict_get_def)
  have b7: "dict_get ?req1 ''history'' (PList []) = PList []" by (simp add: dict_get_def)
  have b8: "dict_get ?req1 ''max_tokens'' (PInt 128) = PInt 128" by (simp add: dict_get_def)
  have b9: "map_of ?req1 ''temperature'' = Some default_temperature \<or>
      map_of ?req1 ''temperature'' = None \<and> default_temperature = default_temperature"
    by simp
  have stages: "build_messages example_runtime (PStr ''Hi'') PNone (PList []) = Inr ?msgs \<and>
      tokenizer loaded_server = Some 1 \<and>
      apply_chat_template flag_backend 1 ?msgs = Inr ''<transcript>'' \<and>
      tokenizer_call flag_backend 1 ''<transcript>'' = Inr [1, 2, 3] \<and>
      inputs_to flag_backend [1, 2, 3] 2 = Inr [1, 2, 3]"
    by (simp add: example_simps)
  have g0: "py_gt_zero (PInt 0) = Inr False" by simp
  have g1: "py_gt_zero default_temperature = Inr True" by (simp add: default_temperature_def)
  have e0: "extract_response ''user\<newline>Hi\<newline>assistant\<newline>greedy'' = ''greedy''"
    by (simp add: extract_response_def py_split_def py_strip_def py_isspace_def sublist_Cons_right)
  have e1: "extract_response ''user\<newline>Hi\<newline>assistant\<newline>sampled'' = ''sampled''"
    by (simp add: extract_response_def py_split_def py_strip_def py_isspace_def sublist_Cons_right)
  note t0 = sampling_iff_positive_temperature [OF a1 a2 a3 m a5 a6 a7 a8 a9, of flag_backend]
  from t0 stages g0
  have r0: "main_step example_runtime flag_backend loaded_server ?raw0 =
      (case model_generate flag_backend 2 1 [1, 2, 3] (PInt 128) (PInt 0) False of
         Inl e \<Rightarrow>
           report_exception loaded_server e
             [ApplyChatTemplate 1 ?msgs, TokenizerCall 1 ''<transcript>'', InputsTo [1, 2, 3] 2,
              ModelGenerate 2 1 [1, 2, 3] (PInt 128) (PInt 0) False]
       | Inr outputs \<Rightarrow>
           (case decode flag_backend 1 outputs of
              Inl e \<Rightarrow>
                report_exception loaded_server e
                  [ApplyChatTemplate 1 ?msgs, TokenizerCall 1 ''<transcript>'',
                   InputsTo [1, 2, 3] 2, ModelGenerate 2 1 [1, 2, 3] (PInt 128) (PInt 0) False,
                   Decode 1 outputs]
            | Inr response \<Rightarrow>
                respond loaded_server
                  (PDict [(''text'', PStr (extract_response response)),
                          (''status'', PStr ''success'')])
                  [ApplyChatTemplate 1 ?msgs, TokenizerCall 1 ''<transcript>'',
                   InputsTo [1, 2, 3] 2, ModelGenerate 2 1 [1, 2, 3] (PInt 128) (PInt 0) False,
                   Decode 1 outputs]))"
    by blast
  note t1 = sampling_iff_positive_temperature [OF b1 b2 b3 m b5 b6 b7 b8 b9, of flag_backend]
  from t1 stages g1
  have r1: "main_step example_runtime flag_backend loaded_server ?raw1 =
      (case model_generate flag_backend 2 1 [1, 2, 3] (PInt 128) default_temperature True of
         Inl e \<Rightarrow>
           report_exception loaded_server e
             [ApplyChatTemplate 1 ?msgs, TokenizerCall 1 ''<transcript>'', InputsTo [1, 2, 3] 2,
              ModelGenerate 2 1 [1, 2, 3] (PInt 128) default_temperature True]
       | Inr outputs \<Rightarrow>
           (case decode flag_backend 1 outputs of
              Inl e \<Rightarrow>
                report_exception loaded_server e
                  [ApplyChatTemplate 1 ?msgs, TokenizerCall 1 ''<transcript>'',
                   InputsTo [1, 2, 3] 2,
                   ModelGenerate 2 1 [1, 2, 3] (PInt 128) default_temperature True,
                   Decode 1 outputs]
            | Inr response \<Rightarrow>
                respond loaded_server
                  (PDict [(''text'', PStr (extract_response response)),
                          (''status'', PStr ''success'')])
                  [ApplyChatTemplate 1 ?msgs, TokenizerCall 1 ''<transcript>'',
                   InputsTo [1, 2, 3] 2,
                   ModelGenerate 2 1 [1, 2, 3] (PInt 128) default_temperature True,
                   Decode 1 outputs]))"
    by blast
  have "main_step example_runtime flag_backend loaded_server ?raw0 =
     \<lparr>state = loaded_server,
      emitted = [PDict [(''text'', PStr ''greedy''), (''status'', PStr ''success'')]],
      continue = True,
      calls = [ApplyChatTemplate 1 ?msgs, TokenizerCall 1 ''<transcript>'', InputsTo [1, 2, 3] 2,
               ModelGenerate 2 1 [1, 2, 3] (PInt 128) (PInt 0) False,
               Decode 1 [1, 2, 3, 0]]\<rparr>"
    unfolding r0 by (simp add: flag_backend_def example_backend_def respond_def e0)
  moreover have "main_step example_runtime flag_backend loaded_server ?raw1 =
     \<lparr>state = loaded_server,
      emitted = [PDict [(''text'', PStr ''sampled''), (''status'', PStr ''success'')]],
      continue = True,
      calls = [ApplyChatTemplate 1 ?msgs, TokenizerCall 1 ''<transcript>'', InputsTo [1, 2, 3] 2,
               ModelGenerate 2 1 [1, 2, 3] (PInt 128) default_temperature True,
               Decode 1 [1, 2, 3, 1]]\<rparr>"
    unfolding r1 by (simp add: flag_backend_def example_backend_def respond_def e1)
  ultimately show ?thesis by blast
qed

section \<open>Lines that are not a JSON object\<close>

lemma main_step_loads_raises:
  "py_strip raw \<noteq> [] \<Longrightarrow> json_loads rt (py_strip raw) = Inl (Exn c msg) \<Longrightarrow>
   main_step rt b s raw =
     \<lparr>state = s,
      emitted = [PDict [(''error'',
        PStr (if c = JSONDecodeError then ''Invalid JSON: '' @ msg else msg))]],
      continue = True, calls = []\<rparr>"
  by (simp add: main_step_def report_exception_def respond_def error_response_def)

lemma main_step_not_object:
  "py_strip raw \<noteq> [] \<Longrightarrow> json_loads rt (py_strip raw) = Inr v \<Longrightarrow> \<forall>items. v \<noteq> PDict items \<Longrightarrow>
   main_step rt b s raw =
     \<lparr>state = s,
      emitted = [PDict [(''error'',
        PStr (quoted (py_type_name v) @ '' object has no attribute '' @ quoted ''get''))]],
      continue = True, calls = []\<rparr>"
  by (cases v)
    (simp_all add: main_step_def report_exception_def respond_def error_response_def
      no_attribute_def)

lemma py_strip_id:
  assumes "s \<noteq> []" "\<not> py_isspace (hd s)" "\<not> py_isspace (last s)"
  shows "py_strip s = s"
proof -
  from assms(1,2) have a: "dropWhile py_isspace s = s" by (cases s) auto
  from assms(1) obtain x xs where r: "rev s = x # xs" by (cases "rev s") auto
  then have "x = last s" using hd_rev [of s] by simp
  with assms(3) have d: "dropWhile py_isspace (x # xs) = x # xs" by simp
  have "dropWhile py_isspace (rev s) = rev s" unfolding r by (rule d)
  with a show ?thesis by (simp add: py_strip_def)
qed

text \<open>
  Claim C6 says that every line that does not parse as a JSON object is answered with
  \<^verbatim>\<open>{"error": "Invalid JSON: ..."}\<close>. The line \<^verbatim>\<open>[]\<close> is valid JSON, so
  \<^verbatim>\<open>json.loads\<close> returns the empty list; \<^verbatim>\<open>request.get\<close> then raises
  \<^verbatim>\<open>AttributeError\<close>, which the general handler reports without that prefix.
\<close>

theorem non_object_line_counterexample:
  "json_loads example_runtime (py_strip ''[]\<newline>'') = Inr (PList []) \<and>
   main_step example_runtime example_backend loaded_server ''[]\<newline>'' =
     \<lparr>state = loaded_server,
      emitted = [PDict [(''error'',
        PStr (quoted ''list'' @ '' object has no attribute '' @ quoted ''get''))]],
      continue = True, calls = []\<rparr> \<and>
   \<not> prefix ''Invalid JSON: '' (quoted ''list'' @ '' object has no attribute '' @ quoted ''get'')"
  by (simp add: example_simps)

text \<open>
  Claim C6, as the code has it. A blank line prints nothing. A non-blank line on which
  \<^verbatim>\<open>json.loads\<close> raises \<^verbatim>\<open>json.JSONDecodeError\<close> is answered with
  \<^verbatim>\<open>{"error": "Invalid JSON: <details>"}\<close>. When \<^verbatim>\<open>json.loads\<close> raises an exception of
  another class (\<^verbatim>\<open>RecursionError\<close>, \<^verbatim>\<open>ValueError\<close>), the general handler answers with
  the bare message of the exception, and when the line is valid JSON but not an object
  (an array, a string, a number, \<^verbatim>\<open>true\<close>, \<^verbatim>\<open>false\<close>, \<^verbatim>\<open>null\<close>) it answers with
  \<^verbatim>\<open>{"error": "'<type>' object has no attribute 'get'"}\<close>. In each case the server
  object is unchanged, no backend call is made and the loop continues.
\<close>

theorem unparsable_line_reported:
  "(py_strip raw = [] \<longrightarrow>
      main_step rt b s raw = \<lparr>state = s, emitted = [], continue = True, calls = []\<rparr>) \<and>
   (\<forall>d. py_strip raw \<noteq> [] \<and> json_loads rt (py_strip raw) = Inl (Exn JSONDecodeError d) \<longrightarrow>
      main_step rt b s raw =
        \<lparr>state = s, emitted = [PDict [(''error'', PStr (''Invalid JSON: '' @ d))]],
         continue = True, calls = []\<rparr> \<and>
      main_loop rt s ((b, raw) # rest) =
        (case main_loop rt s rest of
           (s', out, cs) \<Rightarrow> (s', PDict [(''error'', PStr (''Invalid JSON: '' @ d))] # out, cs))) \<and>
   (\<forall>c msg. py_strip raw \<noteq> [] \<and> json_loads rt (py_strip raw) = Inl (Exn c msg) \<and>
        c \<noteq> JSONDecodeError \<longrightarrow>
      main_step rt b s raw =
        \<lparr>state = s, emitted = [PDict [(''error'', PStr msg)]], continue = True, calls = []\<rparr> \<and>
      main_loop rt s ((b, raw) # rest) =
        (case main_loop rt s rest of
           (s', out, cs) \<Rightarrow> (s', PDict [(''error'', PStr msg)] # out, cs))) \<and>
   (\<forall>v. py_strip raw \<noteq> [] \<and> json_loads rt (py_strip raw) = Inr v \<and>
        (\<forall>items. v \<noteq> PDict items) \<longrightarrow>
      main_step rt b s raw =
        \<lparr>state = s,
         emitted = [PDict [(''error'',
           PStr (quoted (py_type_name v) @ '' object has no attribute '' @ quoted ''get''))]],
         continue = True, calls = []\<rparr> \<and>
      main_loop rt s ((b, raw) # rest) =
        (case main_loop rt s rest of
           (s', out, cs) \<Rightarrow>
             (s', PDict [(''error'',
                PStr (quoted (py_type_name v) @ '' object has no attribute '' @ quoted ''get''))] # out,
              cs)))"
proof (intro conjI allI impI)
  assume "py_strip raw = []"
  then show "main_step rt b s raw = \<lparr>state = s, emitted = [], continue = True, calls = []\<rparr>"
    by (rule main_step_blank)
next
  fix d assume a: "py_strip raw \<noteq> [] \<and> json_loads rt (py_strip raw) = Inl (Exn JSONDecodeError d)"
  then have step: "main_step rt b s raw =
        \<lparr>state = s, emitted = [PDict [(''error'', PStr (''Invalid JSON: '' @ d))]],
         continue = True, calls = []\<rparr>"
    by (simp add: main_step_loads_raises)
  then show "main_step rt b s raw =
        \<lparr>state = s, emitted = [PDict [(''error'', PStr (''Invalid JSON: '' @ d))]],
         continue = True, calls = []\<rparr>" .
  from main_loop_respond [OF step]
  show "main_loop rt s ((b, raw) # rest) =
        (case main_loop rt s rest of
           (s', out, cs) \<Rightarrow> (s', PDict [(''error'', PStr (''Invalid JSON: '' @ d))] # out, cs))"
    by simp
next
  fix c msg assume a: "py_strip raw \<noteq> [] \<and> json_loads rt (py_strip raw) = Inl (Exn c msg) \<and>
        c \<noteq> JSONDecodeError"
  then have step: "main_step rt b s raw =
        \<lparr>state = s, emitted = [PDict [(''error'', PStr msg)]], continue = True, calls = []\<rparr>"
    by (simp add: main_step_loads_raises)
  then show "main_step rt b s raw =
        \<lparr>state = s, emitted = [PDict [(''error'', PStr msg)]], continue = True, calls = []\<rparr>" .
  from main_loop_respond [OF step]
  show "main_loop rt s ((b, raw) # rest) =
        (case main_loop rt s rest of
           (s', out, cs) \<Rightarrow> (s', PDict [(''error'', PStr msg)] # out, cs))"
    by simp
next
  fix v assume a: "py_strip raw \<noteq> [] \<and> json_loads rt (py_strip raw) = Inr v \<and>
        (\<forall>items. v \<noteq> PDict items)"
  then have step: "main_step rt b s raw =
        \<lparr>state = s,
         emitted = [PDict [(''error'',
           PStr (quoted (py_type_name v) @ '' object has no attribute '' @ quoted ''get''))]],
         continue = True, calls = []\<rparr>"
    by (simp add: main_step_not_object)
  then show "main_step rt b s raw =
        \<lparr>state = s,
         emitted = [PDict [(''error'',
           PStr (quoted (py_type_name v) @ '' object has no attribute '' @ quoted ''get''))]],
         continue = True, calls = []\<rparr>" .
  from main_loop_respond [OF step]
  show "main_loop rt s ((b, raw) # rest) =
        (case main_loop rt s rest of
           (s', out, cs) \<Rightarrow>
             (s', PDict [(''error'',
                PStr (quoted (py_type_name v) @ '' object has no attribute '' @ quoted ''get''))] # out,
              cs))"
    by simp
qed

theorem unparsable_line_reported_witness:
  "main_loop example_runtime loaded_server
     [(example_backend, ''not json\<newline>''), (example_backend, ''\"hello\"\<newline>''),
      (example_backend, ''   \<newline>''), (example_backend, ''{\"command\":\"test\"}\<newline>'')] =
     (loaded_server,
      [PDict [(''error'', PStr ''Invalid JSON: Expecting value: line 1 column 1 (char 0)'')],
       PDict [(''error'', PStr (quoted ''str'' @ '' object has no attribute '' @ quoted ''get''))],
       PDict [(''status'', PStr ''ok''), (''model_loaded'', PBool True)]],
      []) \<and>
   main_step digit_limit_runtime example_backend loaded_server (replicate 5000 (CHR ''1'')) =
     \<lparr>state = loaded_server,
      emitted = [PDict [(''error'',
        PStr ''Exceeds the limit (4300 digits) for integer string conversion'')]],
      continue = True, calls = []\<rparr>"
proof -
  let ?t = "[(example_backend, ''{\"command\":\"test\"}\<newline>'')]"
  let ?r3 = "(example_backend, ''   \<newline>'') # ?t"
  let ?r2 = "(example_backend, ''\"hello\"\<newline>'') # ?r3"
  let ?big = "replicate 5000 (CHR ''1'')"
  have t: "main_loop example_runtime loaded_server ?t =
      (loaded_server, [PDict [(''status'', PStr ''ok''), (''model_loaded'', PBool True)]], [])"
    by (simp add: example_simps)
  have b3: "py_strip ''   \<newline>'' = []" by (simp add: py_strip_def py_isspace_def)
  from unparsable_line_reported [of "''   \<newline>''" example_runtime example_backend loaded_server ?t] b3
  have "main_step example_runtime example_backend loaded_server ''   \<newline>'' =
      \<lparr>state = loaded_server, emitted = [], continue = True, calls = []\<rparr>" by blast
  from main_loop_respond [OF this, of ?t]
  have r3: "main_loop example_runtime loaded_server ?r3 =
      (loaded_server, [PDict [(''status'', PStr ''ok''), (''model_loaded'', PBool True)]], [])"
    using t by (simp del: main_loop.simps)
  have b2: "py_strip ''\"hello\"\<newline>'' \<noteq> [] \<and>
      json_loads example_runtime (py_strip ''\"hello\"\<newline>'') = Inr (PStr ''hello'') \<and>
      (\<forall>items. PStr ''hello'' \<noteq> PDict items)"
    by (simp add: example_simps)
  from unparsable_line_reported [of "''\"hello\"\<newline>''" example_runtime example_backend loaded_server ?r3] b2
  have "main_loop example_runtime loaded_server ?r2 =
        (case main_loop example_runtime loaded_server ?r3 of
           (s', out, cs) \<Rightarrow>
             (s', PDict [(''error'',
                PStr (quoted (py_type_name (PStr ''hello'')) @ '' object has no attribute '' @ quoted ''get''))] # out,
              cs))" by blast
  then have r2: "main_loop example_runtime loaded_server ?r2 =
      (loaded_server,
       [PDict [(''error'', PStr (quoted ''str'' @ '' object has no attribute '' @ quoted ''get''))],
        PDict [(''status'', PStr ''ok''), (''model_loaded'', PBool True)]], [])"
    using r3 by (simp del: main_loop.simps)
  have b1: "py_strip ''not json\<newline>'' \<noteq> [] \<and>
      json_loads example_runtime (py_strip ''not json\<newline>'') =
        Inl (Exn JSONDecodeError ''Expecting value: line 1 column 1 (char 0)'')"
    by (simp add: example_simps)
  from unparsable_line_reported [of "''not json\<newline>''" example_runtime example_backend loaded_server ?r2] b1
  have "main_loop example_runtime loaded_server ((example_backend, ''not json\<newline>'') # ?r2) =
        (case main_loop example_runtime loaded_server ?r2 of
           (s', out, cs) \<Rightarrow>
             (s', PDict [(''error'', PStr (''Invalid JSON: '' @ ''Expecting value: line 1 column 1 (char 0)''))] # out, cs))"
    by blast
  then have first: "main_loop example_runtime loaded_server
     [(example_backend, ''not json\<newline>''), (example_backend, ''\"hello\"\<newline>''),
      (example_backend, ''   \<newline>''), (example_backend, ''{\"command\":\"test\"}\<newline>'')] =
     (loaded_server,
      [PDict [(''error'', PStr ''Invalid JSON: Expecting value: line 1 column 1 (char 0)'')],
       PDict [(''error'', PStr (quoted ''str'' @ '' object has no attribute '' @ quoted ''get''))],
       PDict [(''status'', PStr ''ok''), (''model_loaded'', PBool True)]],
      [])"
    using r2 by (simp del: main_loop.simps)
  have strip: "py_strip ?big = ?big"
    by (rule py_strip_id) (simp_all add: py_isspace_def)
  have b4: "py_strip ?big \<noteq> [] \<and>
      json_loads digit_limit_runtime (py_strip ?big) =
        Inl (Exn ValueError ''Exceeds the limit (4300 digits) for integer string conversion'') \<and>
      ValueError \<noteq> JSONDecodeError"
    unfolding strip by (simp add: digit_limit_runtime_def digit_limit_loads_def)
  from unparsable_line_reported [of ?big digit_limit_runtime example_backend loaded_server "[]"] b4
  have "main_step digit_limit_runtime example_backend loaded_server ?big =
     \<lparr>state = loaded_server,
      emitted = [PDict [(''error'',
        PStr ''Exceeds the limit (4300 digits) for integer string conversion'')]],
      continue = True, calls = []\<rparr>"
    by blast
  with first show ?thesis by blast
qed

section \<open>The model handle over a run\<close>

lemma LLMServer_model: "model (LLMServer mid cache) = None"
  by (simp add: LLMServer_def)



lemma load_model_tokenizer:
  "load_model b s = (ok, s', cs) \<Longrightarrow> (model s \<noteq> None \<longrightarrow> tokenizer s \<noteq> None) \<Longrightarrow>
   model s' \<noteq> None \<longrightarrow> tokenizer s' \<noteq> None"
  by (auto simp: load_model_def Let_def split: sum.splits if_splits)




















text \<open>
  Claim C4 says that \<^verbatim>\<open>model_loaded\<close> becomes true only when a
  \<^verbatim>\<open>load_model\<close> command succeeds. \<^verbatim>\<open>load_model\<close> assigns \<^verbatim>\<open>self.model\<close> before it
  moves the model to the CPU; when \<^verbatim>\<open>self.model.to\<close> raises, the command answers
  \<^verbatim>\<open>{"status": "failed"}\<close> and the handle stays assigned, so that the next \<^verbatim>\<open>test\<close>
  reports \<^verbatim>\<open>model_loaded: true\<close> although no \<^verbatim>\<open>load_model\<close> has succeeded. The other
  two parts of the claim hold: \<open>LLMServer_model\<close> (false at the start) and
  \<open>main_loop_model_kept\<close> (never reverts).
\<close>

theorem failed_load_leaves_model_set:
  "main example_runtime ''Qwen/Qwen2.5-3B-Instruct''
     [(failing_to_backend, ''{\"command\":\"load_model\"}\<newline>''),
      (example_backend, ''{\"command\":\"test\"}\<newline>'')] =
     (loaded_server,
      [Sentinel ''READY'',
       Json (PDict [(''status'', PStr ''failed'')]),
       Json (PDict [(''status'', PStr ''ok''), (''model_loaded'', PBool True)])],
      [CudaIsAvailable, TokenizerFromPretrained ''Qwen/Qwen2.5-3B-Instruct'' True,
       ModelFromPretrained ''Qwen/Qwen2.5-3B-Instruct'' ''cpu'' True, ModelTo 2 ''cpu'']) \<and>
   model loaded_server = Some 2"
  by (simp add: main_def example_simps)

end
